theory Spec2Isabelle
  imports Main
begin

unbundle bit_operations_syntax

section \<open>Data shared by the engine\<close>

text \<open>
  Pointers are addresses into one store of objects; address 0 is \<open>nullptr\<close>. A pointer
  that is null, that points at nothing, or that is used at the wrong type makes the
  C++ program undefined: the model returns a \<open>fault\<close> there instead of a value.
  Floating-point values are kept abstract (type variable \<open>'f\<close> for \<open>float\<close>,
  \<open>'n\<close> for Lua's \<open>lua_Number\<close>): the code only copies, casts and adds them.
\<close>

type_synonym addr = nat

datatype fault =
    Null_pointer
  | Wild_pointer
  | Out_of_bounds
  | Lua_api_misuse
  | Null_string
  | Assertion_failed

datatype 'f ga_vec2f = Vec2 (vec2_x: 'f) (vec2_y: 'f)

datatype 'f ga_vec3f = Vec3 (vec_x: 'f) (vec_y: 'f) (vec_z: 'f)

text \<open>\<open>ga_mat4f\<close>: \<open>m r c\<close> is \<open>data[r][c]\<close>.\<close>

type_synonym 'f ga_mat4f = "nat \<Rightarrow> nat \<Rightarrow> 'f"

text \<open>Decimal output of \<open>operator<<\<close> on an integer.\<close>

function string_of_nat :: "nat \<Rightarrow> string" where
  "string_of_nat n =
     (if n < 10 then [''0123456789'' ! n]
      else string_of_nat (n div 10) @ [''0123456789'' ! (n mod 10)])"
  by pat_completeness auto
termination
  by (relation "measure id") auto

definition string_of_int :: "int \<Rightarrow> string" where
  "string_of_int i =
     (if i < 0 then ''-'' @ string_of_nat (nat (- i)) else string_of_nat (nat i))"

definition endl :: string where
  "endl = [CHR 0x0A]"

section \<open>The Lua interpreter, as far as the bridge sees it\<close>

text \<open>
  The four C functions the component registers, as values a script can hold and call.
\<close>

datatype native_fn =
    Frame_params_get_input_left
  | Frame_params_get_input_right
  | Component_get_entity
  | Entity_translate

text \<open>
  Lua values by type tag. \<open>LFunction\<close> stands for every function the interpreter
  itself runs (Lua closures, compiled chunks, library functions); \<open>LNative\<close> for the
  component's own C functions.
\<close>

datatype 'n lua_value =
    LNil
  | LBoolean bool
  | LLightUserdata addr
  | LNumber 'n
  | LString string
  | LTable nat
  | LFunction nat
  | LNative native_fn
  | LUserdata addr
  | LThread nat

datatype lua_status = LUA_OK | LUA_ERRRUN | LUA_ERRSYNTAX | LUA_ERRMEM | LUA_ERRFILE

datatype load_error = Syntax_error | File_error

text \<open>
  \<open>lua_State\<close>: the global table (an absent global reads as nil) and the stack of the
  running C frame, bottom first, so that index 1 is the head of the list and the top is
  its last element.
\<close>

record 'n lua_State =
  globals :: "string \<Rightarrow> 'n lua_value"
  stack :: "'n lua_value list"

datatype 'n call_outcome = Raised "'n lua_value" | Returned "'n lua_value list"

section \<open>Engine objects\<close>

text \<open>
  Modelled from the spec: the declarations of the engine's classes. The headers
  (\<open>ga_entity.h\<close>, \<open>ga_frame_params.h\<close>, \<open>ga_lua_component.h\<close>, \<open>ga_mesh.h\<close>,
  \<open>ga_material.h\<close>, \<open>ga_model_component.h\<close>) are not part of the sources, so each
  record holds the members that the code reads or writes and the specification names,
  under the code's names without the leading underscore and with a prefix for the
  class. The widths of the unsigned members (\<open>_button_mask\<close>, \<open>_index_count\<close>,
  \<open>_vertex_format\<close>, the buffer names) are fixed by those headers; the operations applied
  to them (\<open>&\<close>, \<open>|\<close>, assignment of a size) are modelled on natural numbers.
\<close>

record 'f ga_entity =
  e_transform :: "'f ga_mat4f"

record 'f ga_static_drawcall =
  dc_vao :: nat
  dc_index_count :: nat
  dc_draw_mode :: nat
  dc_material :: addr
  dc_transform :: "'f ga_mat4f"

record 'f ga_frame_params =
  fp_delta_time :: int
  fp_button_mask :: nat
  fp_static_drawcalls :: "'f ga_static_drawcall list"

record 'n ga_lua_component =
  lc_entity :: addr
  lc_lua :: "'n lua_State option"

datatype 'f ga_material =
    Ga_lit_texture_material string
  | Ga_lit_material 'f 'f 'f

record 'f ga_vertex =
  v_position :: "'f ga_vec3f"
  v_uv :: "'f ga_vec2f"
  v_normal :: "'f ga_vec3f"

record 'f ga_mesh =
  m_vertex_format :: nat
  m_name :: string
  m_vertex_array :: "'f ga_vertex list"
  m_index_array :: "nat list"
  m_index_count :: nat
  m_material :: addr
  m_vao :: nat
  m_vbo :: "nat \<times> nat"

datatype ('n, 'f) object =
    Obj_entity "'f ga_entity"
  | Obj_frame_params "'f ga_frame_params"
  | Obj_lua_component "'n ga_lua_component"
  | Obj_material "'f ga_material"
  | Obj_mesh "'f ga_mesh"

text \<open>
  The OpenGL context: the commands issued so far, the next unused object name and the
  sticky error flag that \<open>glGetError\<close> reads.
\<close>

datatype gl_cmd =
    GenVertexArrays nat
  | BindVertexArray nat
  | GenBuffers nat nat
  | BindBuffer nat nat
  | BufferData nat nat nat
  | VertexAttribPointer nat nat nat nat nat nat
  | EnableVertexAttribArray nat
  | Material_init addr

record gl_state =
  gl_log :: "gl_cmd list"
  gl_next_name :: nat
  gl_error :: nat

text \<open>
  What a running script can reach: the object store, the last address the allocator handed out, the
  graphics context and the two output streams.
\<close>

record ('n, 'f) scene =
  heap :: "addr \<Rightarrow> ('n, 'f) object option"
  alloc_mark :: addr
  gl :: gl_state
  cerr :: string
  cout :: string

text \<open>
  The host's side adds what no script can touch: the number of interpreter states that
  are open (\<open>luaL_newstate\<close> opens one, \<open>lua_close\<close> releases one) and the record of
  the protected calls the host has made, each with the callee and its arguments.
\<close>

record ('n, 'f) world =
  scene :: "('n, 'f) scene"
  lua_open :: nat
  pcall_log :: "('n lua_value \<times> 'n lua_value list) list"

section \<open>Imported assets (Assimp)\<close>

text \<open>
  The importer's output, as far as the code reads it. An array with its element count
  is a list (\<open>mNumVertices\<close>, \<open>mNumFaces\<close>, \<open>mNumIndices\<close>, \<open>mNumMeshes\<close> and
  \<open>mNumChildren\<close> are the lengths); an optional per-vertex channel is \<open>None\<close> when its
  pointer is null. Of a material only the diffuse textures and the diffuse colour are
  read.
\<close>

record aiFace =
  mIndices :: "nat list"

record 'f aiMaterial =
  diffuse_textures :: "string list"
  color_diffuse :: "('f \<times> 'f \<times> 'f) option"

record 'f aiMesh =
  mName :: string
  mVertices :: "'f ga_vec3f list"
  mTextureCoords0 :: "'f ga_vec3f list option"
  mNormals :: "'f ga_vec3f list option"
  mColors0 :: "('f \<times> 'f \<times> 'f \<times> 'f) list option"
  mBones :: "string list option"
  mFaces :: "aiFace list"
  mMaterialIndex :: nat

datatype 'f aiNode =
  AiNode (node_mName: string) (mTransformation: "'f ga_mat4f") (node_mMeshes: "nat list")
         (mChildren: "'f aiNode list")

record 'f aiScene =
  mMeshes :: "'f aiMesh list"
  mMaterials :: "'f aiMaterial list"
  mRootNode :: "'f aiNode"

section \<open>The scene graph and the model component\<close>

text \<open>
  Modelled from the spec: \<open>ga_node\<close>, declared and defined in \<open>graphics/ga_node\<close>, which
  is not part of the sources. Per the specification a node has a name, a local
  transform, the world transform computed every frame, non-owning references to meshes
  and a list of owned children.
\<close>

datatype 'f ga_node =
  Ga_node (nd_name: string) (nd_transform: "'f ga_mat4f") (nd_world: "'f ga_mat4f")
          (nd_meshes: "addr list") (nd_children: "'f ga_node list")

record 'f ga_model_component =
  mc_entity :: addr
  mc_scene :: "'f aiScene option"
  mc_meshes :: "addr list"
  mc_root :: "'f ga_node"

section \<open>The environment\<close>

text \<open>
  Everything the sources take from outside: the process-wide root path; the file system
  with the Lua compiler (\<open>load_chunk\<close>); the globals that \<open>luaL_openlibs\<close> installs;
  the interpreter running a function value on arguments (\<open>None\<close> when the script never
  returns, a fault when a C function it calls crashes the process); Lua's conversions
  between numbers and strings; the C cast from \<open>lua_Number\<close> to \<open>float\<close>; the two
  button constants of \<open>ga_frame_params.h\<close>; the file system with the asset importer
  (\<open>ReadFile\<close>); the vertex-attribute bits, \<open>sizeof(ga_vertex)\<close> and the conversion
  from \<open>unsigned int\<close> to the element type of \<open>_index_array\<close>, all three fixed by
  \<open>ga_mesh.h\<close>; the product of \<open>ga_mat4f\<close>; the error, if any, that the graphics
  driver raises on a command; and what the storage of a new mesh and a new node holds
  before their constructors run.
\<close>

record ('n, 'f) engine_env =
  g_root_path :: string
  load_chunk :: "string \<Rightarrow> (load_error \<times> string) + 'n lua_value"
  openlibs_globals :: "string \<Rightarrow> 'n lua_value"
  interp :: "'n lua_value \<Rightarrow> 'n lua_value list \<Rightarrow> (string \<Rightarrow> 'n lua_value) \<Rightarrow> ('n, 'f) scene
               \<Rightarrow> (fault + 'n call_outcome \<times> (string \<Rightarrow> 'n lua_value) \<times> ('n, 'f) scene) option"
  str2number :: "string \<Rightarrow> 'n option"
  number2str :: "'n \<Rightarrow> string"
  float_cast :: "'n \<Rightarrow> 'f"
  k_button_j :: nat
  k_button_l :: nat
  ReadFile :: "string \<Rightarrow> 'f aiScene option"
  k_vertex_attribute_uv :: nat
  k_vertex_attribute_normal :: nat
  k_vertex_attribute_color :: nat
  k_vertex_attribute_weight :: nat
  vertex_size :: nat
  index_cast :: "nat \<Rightarrow> nat"
  mat_mul :: "'f ga_mat4f \<Rightarrow> 'f ga_mat4f \<Rightarrow> 'f ga_mat4f"
  gl_driver :: "gl_state \<Rightarrow> gl_cmd \<Rightarrow> nat"
  raw_mesh :: "'f ga_mesh"
  raw_node :: "'f ga_node"

subsection \<open>Pointers\<close>

definition deref :: "('n, 'f) scene \<Rightarrow> addr \<Rightarrow> fault + ('n, 'f) object" where
  "deref sc p =
     (if p = 0 then Inl Null_pointer
      else case heap sc p of None \<Rightarrow> Inl Wild_pointer | Some obj \<Rightarrow> Inr obj)"

definition deref_frame_params :: "('n, 'f) scene \<Rightarrow> addr \<Rightarrow> fault + 'f ga_frame_params" where
  "deref_frame_params sc p =
     (case deref sc p of
        Inl f \<Rightarrow> Inl f
      | Inr (Obj_frame_params fp) \<Rightarrow> Inr fp
      | Inr _ \<Rightarrow> Inl Wild_pointer)"

definition deref_entity :: "('n, 'f) scene \<Rightarrow> addr \<Rightarrow> fault + 'f ga_entity" where
  "deref_entity sc p =
     (case deref sc p of
        Inl f \<Rightarrow> Inl f
      | Inr (Obj_entity e) \<Rightarrow> Inr e
      | Inr _ \<Rightarrow> Inl Wild_pointer)"

definition deref_lua_component :: "('n, 'f) scene \<Rightarrow> addr \<Rightarrow> fault + 'n ga_lua_component" where
  "deref_lua_component sc p =
     (case deref sc p of
        Inl f \<Rightarrow> Inl f
      | Inr (Obj_lua_component c) \<Rightarrow> Inr c
      | Inr _ \<Rightarrow> Inl Wild_pointer)"

subsection \<open>The stack API of Lua\<close>

definition lua_gettop :: "'n lua_State \<Rightarrow> int" where
  "lua_gettop L = int (length (stack L))"

text \<open>
  The value at a stack index: positive indices count from the bottom, negative ones
  from the top; an index beyond the top holds no value.
\<close>

definition index2value :: "'n lua_State \<Rightarrow> int \<Rightarrow> 'n lua_value option" where
  "index2value L i =
     (let top = lua_gettop L; j = (if i < 0 then top + i + 1 else i)
      in if 1 \<le> j \<and> j \<le> top then Some (stack L ! nat (j - 1)) else None)"

definition lua_touserdata :: "'n lua_State \<Rightarrow> int \<Rightarrow> addr" where
  "lua_touserdata L i =
     (case index2value L i of
        Some (LLightUserdata p) \<Rightarrow> p
      | Some (LUserdata p) \<Rightarrow> p
      | _ \<Rightarrow> 0)"

definition lua_tonumber :: "('n::zero, 'f) engine_env \<Rightarrow> 'n lua_State \<Rightarrow> int \<Rightarrow> 'n" where
  "lua_tonumber env L i =
     (case index2value L i of
        Some (LNumber d) \<Rightarrow> d
      | Some (LString s) \<Rightarrow> (case str2number env s of Some d \<Rightarrow> d | None \<Rightarrow> 0)
      | _ \<Rightarrow> 0)"

definition lua_tostring :: "('n, 'f) engine_env \<Rightarrow> 'n lua_State \<Rightarrow> int \<Rightarrow> string option" where
  "lua_tostring env L i =
     (case index2value L i of
        Some (LString s) \<Rightarrow> Some s
      | Some (LNumber d) \<Rightarrow> Some (number2str env d)
      | _ \<Rightarrow> None)"

fun is_function_value :: "'n lua_value \<Rightarrow> bool" where
  "is_function_value (LFunction _) = True"
| "is_function_value (LNative _) = True"
| "is_function_value _ = False"

definition lua_isfunction :: "'n lua_State \<Rightarrow> int \<Rightarrow> bool" where
  "lua_isfunction L i =
     (case index2value L i of Some v \<Rightarrow> is_function_value v | None \<Rightarrow> False)"

definition lua_push :: "'n lua_State \<Rightarrow> 'n lua_value \<Rightarrow> 'n lua_State" where
  "lua_push L v = L\<lparr>stack := stack L @ [v]\<rparr>"

definition lua_pushboolean :: "'n lua_State \<Rightarrow> bool \<Rightarrow> 'n lua_State" where
  "lua_pushboolean L b = lua_push L (LBoolean b)"

definition lua_pushlightuserdata :: "'n lua_State \<Rightarrow> addr \<Rightarrow> 'n lua_State" where
  "lua_pushlightuserdata L p = lua_push L (LLightUserdata p)"

definition lua_getglobal :: "'n lua_State \<Rightarrow> string \<Rightarrow> 'n lua_State" where
  "lua_getglobal L name = lua_push L (globals L name)"

definition lua_pop :: "'n lua_State \<Rightarrow> nat \<Rightarrow> 'n lua_State" where
  "lua_pop L n = L\<lparr>stack := take (length (stack L) - n) (stack L)\<rparr>"

definition lua_register :: "'n lua_State \<Rightarrow> string \<Rightarrow> native_fn \<Rightarrow> 'n lua_State" where
  "lua_register L name f = L\<lparr>globals := (globals L)(name := LNative f)\<rparr>"

definition luaL_loadfile ::
  "('n, 'f) engine_env \<Rightarrow> 'n lua_State \<Rightarrow> string \<Rightarrow> lua_status \<times> 'n lua_State" where
  "luaL_loadfile env L filename =
     (case load_chunk env filename of
        Inl (Syntax_error, msg) \<Rightarrow> (LUA_ERRSYNTAX, lua_push L (LString msg))
      | Inl (File_error, msg) \<Rightarrow> (LUA_ERRFILE, lua_push L (LString msg))
      | Inr chunk \<Rightarrow> (LUA_OK, lua_push L chunk))"

subsection \<open>The registered C functions\<close>

text \<open>
  Each takes the state of its own call frame, whose stack holds exactly the arguments of
  the call, and returns the number of results it declares; Lua then takes that many
  values from the top of the stack.
\<close>

definition lua_frame_params_get_input_left ::
  "('n, 'f) engine_env \<Rightarrow> 'n lua_State \<Rightarrow> ('n, 'f) scene
     \<Rightarrow> fault + int \<times> 'n lua_State \<times> ('n, 'f) scene" where
  "lua_frame_params_get_input_left env state sc =
     (let arg_count = lua_gettop state in
      if arg_count = 1 then
        (case deref_frame_params sc (lua_touserdata state 1) of
           Inl f \<Rightarrow> Inl f
         | Inr params \<Rightarrow>
             Inr (1, lua_pushboolean state ((fp_button_mask params AND k_button_j env) \<noteq> 0), sc))
      else
        Inr (1, state,
             sc\<lparr>cerr := cerr sc @ ''Function frame_params_get_input_left expected 1 argument but got ''
                    @ string_of_int arg_count @ ''.'' @ endl\<rparr>))"

definition lua_frame_params_get_input_right ::
  "('n, 'f) engine_env \<Rightarrow> 'n lua_State \<Rightarrow> ('n, 'f) scene
     \<Rightarrow> fault + int \<times> 'n lua_State \<times> ('n, 'f) scene" where
  "lua_frame_params_get_input_right env state sc =
     (let arg_count = lua_gettop state in
      if arg_count = 1 then
        (case deref_frame_params sc (lua_touserdata state 1) of
           Inl f \<Rightarrow> Inl f
         | Inr params \<Rightarrow>
             Inr (1, lua_pushboolean state ((fp_button_mask params AND k_button_l env) \<noteq> 0), sc))
      else
        Inr (1, state,
             sc\<lparr>cerr := cerr sc @ ''Function frame_params_get_input_right expected 1 argument but got ''
                    @ string_of_int arg_count @ ''.'' @ endl\<rparr>))"

text \<open>
  Modelled from the spec: \<open>ga_component::get_entity\<close> (\<open>ga_component.h\<close> is not part of
  the sources) "returns the owning entity reference", the pointer the constructor was
  given.
\<close>

definition get_entity :: "'n ga_lua_component \<Rightarrow> addr" where
  "get_entity c = lc_entity c"

definition lua_component_get_entity ::
  "('n, 'f) engine_env \<Rightarrow> 'n lua_State \<Rightarrow> ('n, 'f) scene
     \<Rightarrow> fault + int \<times> 'n lua_State \<times> ('n, 'f) scene" where
  "lua_component_get_entity env state sc =
     (let arg_count = lua_gettop state in
      if arg_count = 1 then
        (case deref_lua_component sc (lua_touserdata state 1) of
           Inl f \<Rightarrow> Inl f
         | Inr component \<Rightarrow> Inr (1, lua_pushlightuserdata state (get_entity component), sc))
      else
        Inr (1, state,
             sc\<lparr>cerr := cerr sc @ ''Function component_get_entity expected 1 argument but got ''
                    @ string_of_int arg_count @ ''.'' @ endl\<rparr>))"

text \<open>
  Modelled from the spec: \<open>ga_entity::translate\<close>, whose source (\<open>entity/ga_entity\<close>) is
  not part of the sources. The specification says that it "applies a translation to
  the entity's transform" and that the entity's position moves by the given delta. The
  position is the translation row of the row-major transform, \<open>data[3][0..2]\<close>.
\<close>

definition position :: "'f ga_entity \<Rightarrow> 'f ga_vec3f" where
  "position e = Vec3 (e_transform e 3 0) (e_transform e 3 1) (e_transform e 3 2)"

definition translate :: "('f::plus) ga_vec3f \<Rightarrow> 'f ga_entity \<Rightarrow> 'f ga_entity" where
  "translate v e =
     e\<lparr>e_transform :=
         (e_transform e)(3 := (e_transform e 3)
            (0 := e_transform e 3 0 + vec_x v,
             1 := e_transform e 3 1 + vec_y v,
             2 := e_transform e 3 2 + vec_z v))\<rparr>"

definition lua_entity_translate ::
  "('n::zero, 'f::plus) engine_env \<Rightarrow> 'n lua_State \<Rightarrow> ('n, 'f) scene
     \<Rightarrow> fault + int \<times> 'n lua_State \<times> ('n, 'f) scene" where
  "lua_entity_translate env state sc =
     (let arg_count = lua_gettop state in
      if arg_count = 4 then
        (let ent = lua_touserdata state 1;
             vec = Vec3 (float_cast env (lua_tonumber env state 2))
                        (float_cast env (lua_tonumber env state 3))
                        (float_cast env (lua_tonumber env state 4))
         in case deref_entity sc ent of
              Inl f \<Rightarrow> Inl f
            | Inr e \<Rightarrow> Inr (0, state, sc\<lparr>heap := (heap sc)(ent \<mapsto> Obj_entity (translate vec e))\<rparr>))
      else
        Inr (0, state,
             sc\<lparr>cerr := cerr sc @ ''Function entity_translate expected 4 arguments but got ''
                    @ string_of_int arg_count @ ''.'' @ endl\<rparr>))"

subsection \<open>Calling a function value\<close>

fun native_body ::
  "native_fn \<Rightarrow> ('n::zero, 'f::plus) engine_env \<Rightarrow> 'n lua_State \<Rightarrow> ('n, 'f) scene
     \<Rightarrow> fault + int \<times> 'n lua_State \<times> ('n, 'f) scene" where
  "native_body Frame_params_get_input_left = lua_frame_params_get_input_left"
| "native_body Frame_params_get_input_right = lua_frame_params_get_input_right"
| "native_body Component_get_entity = lua_component_get_entity"
| "native_body Entity_translate = lua_entity_translate"

text \<open>
  Lua's protocol for a C function: a fresh frame holding the arguments; on return, the
  declared number of results is taken from the top of the frame's stack. Declaring more
  results than the stack holds is outside the contract of the C API.
\<close>

definition call_native ::
  "('n::zero, 'f::plus) engine_env \<Rightarrow> native_fn \<Rightarrow> 'n lua_value list \<Rightarrow> (string \<Rightarrow> 'n lua_value)
     \<Rightarrow> ('n, 'f) scene \<Rightarrow> fault + 'n call_outcome \<times> (string \<Rightarrow> 'n lua_value) \<times> ('n, 'f) scene" where
  "call_native env f args g sc =
     (case native_body f env \<lparr>globals = g, stack = args\<rparr> sc of
        Inl flt \<Rightarrow> Inl flt
      | Inr (n, L, sc') \<Rightarrow>
          if 0 \<le> n \<and> nat n \<le> length (stack L)
          then Inr (Returned (drop (length (stack L) - nat n) (stack L)), globals L, sc')
          else Inl Lua_api_misuse)"

definition call_value ::
  "('n::zero, 'f::plus) engine_env \<Rightarrow> 'n lua_value \<Rightarrow> 'n lua_value list \<Rightarrow> (string \<Rightarrow> 'n lua_value)
     \<Rightarrow> ('n, 'f) scene
     \<Rightarrow> (fault + 'n call_outcome \<times> (string \<Rightarrow> 'n lua_value) \<times> ('n, 'f) scene) option" where
  "call_value env f args g sc =
     (case f of
        LNative nf \<Rightarrow> Some (call_native env nf args g sc)
      | _ \<Rightarrow> interp env f args g sc)"

definition adjust_results :: "int \<Rightarrow> 'n lua_value list \<Rightarrow> 'n lua_value list" where
  "adjust_results nresults rs =
     (if nresults < 0 then rs else take (nat nresults) (rs @ replicate (nat nresults) LNil))"

text \<open>
  \<open>lua_pcall(L, nargs, nresults, 0)\<close>: the callee sits below its \<open>nargs\<close> arguments; both
  are popped; on success the results are pushed, adjusted to \<open>nresults\<close>, on a script
  error the error object is pushed and the status is not \<open>LUA_OK\<close>.
\<close>

definition lua_pcall ::
  "('n::zero, 'f::plus) engine_env \<Rightarrow> 'n lua_State \<Rightarrow> int \<Rightarrow> int \<Rightarrow> ('n, 'f) world
     \<Rightarrow> (fault \<times> ('n, 'f) world + lua_status \<times> 'n lua_State \<times> ('n, 'f) world) option" where
  "lua_pcall env L nargs nresults w =
     (let st = stack L; n = length st in
      if nargs < 0 \<or> n < nat nargs + 1 then Some (Inl (Lua_api_misuse, w))
      else
        (let f = st ! (n - nat nargs - 1);
             args = drop (n - nat nargs) st;
             base = take (n - nat nargs - 1) st;
             w1 = w\<lparr>pcall_log := pcall_log w @ [(f, args)]\<rparr>
         in case call_value env f args (globals L) (scene w1) of
              None \<Rightarrow> None
            | Some (Inl flt) \<Rightarrow> Some (Inl (flt, w1))
            | Some (Inr (Raised e, g, sc)) \<Rightarrow>
                Some (Inr (LUA_ERRRUN, \<lparr>globals = g, stack = base @ [e]\<rparr>, w1\<lparr>scene := sc\<rparr>))
            | Some (Inr (Returned rs, g, sc)) \<Rightarrow>
                Some (Inr (LUA_OK, \<lparr>globals = g, stack = base @ adjust_results nresults rs\<rparr>,
                           w1\<lparr>scene := sc\<rparr>))))"

section \<open>ga_lua_component\<close>

definition emit_cerr :: "string \<Rightarrow> ('n, 'f) world \<Rightarrow> ('n, 'f) world" where
  "emit_cerr msg w = w\<lparr>scene := (scene w)\<lparr>cerr := cerr (scene w) @ msg\<rparr>\<rparr>"

definition lua_close :: "('n, 'f) world \<Rightarrow> ('n, 'f) world" where
  "lua_close w = w\<lparr>lua_open := lua_open w - 1\<rparr>"

definition luaL_newstate :: "('n, 'f) world \<Rightarrow> ('n, 'f) world" where
  "luaL_newstate w = w\<lparr>lua_open := lua_open w + 1\<rparr>"

text \<open>The object at \<open>this\<close>, as the constructor leaves it or as \<open>update\<close> finds it.\<close>

definition put_component :: "addr \<Rightarrow> 'n ga_lua_component \<Rightarrow> ('n, 'f) world \<Rightarrow> ('n, 'f) world" where
  "put_component this c w =
     w\<lparr>scene := (scene w)\<lparr>heap := (heap (scene w))(this \<mapsto> Obj_lua_component c)\<rparr>\<rparr>"

text \<open>
  The constructor. The result is \<open>None\<close> when the script's top level never returns;
  otherwise the fault that ended the process, if any, and the world.
\<close>

definition ga_lua_component_ctor ::
  "('n::zero, 'f::plus) engine_env \<Rightarrow> addr \<Rightarrow> addr \<Rightarrow> string \<Rightarrow> ('n, 'f) world
     \<Rightarrow> (fault option \<times> ('n, 'f) world) option" where
  "ga_lua_component_ctor env this ent path w =
     (let w0 = luaL_newstate w;
          L0 = \<lparr>globals = openlibs_globals env, stack = []\<rparr>;
          fullpath = g_root_path env @ path;
          (status, L1) = luaL_loadfile env L0 fullpath
      in
      if status \<noteq> LUA_OK then
        (case lua_tostring env L1 (- 1) of
           None \<Rightarrow> Some (Some Null_string, w0)
         | Some msg \<Rightarrow>
             Some (None,
               put_component this \<lparr>lc_entity = ent, lc_lua = None\<rparr>
                 (lua_close (emit_cerr (''Failed to load script '' @ path @ '': '' @ msg) w0))))
      else
        (case lua_pcall env L1 0 0 w0 of
           None \<Rightarrow> None
         | Some (Inl (flt, w1)) \<Rightarrow> Some (Some flt, w1)
         | Some (Inr (_, L2, w2)) \<Rightarrow>
             (let L3 = lua_getglobal L2 ''update'';
                  top = lua_gettop L3
              in
              if top = 0 \<or> \<not> lua_isfunction L3 top then
                Some (None,
                  put_component this \<lparr>lc_entity = ent, lc_lua = None\<rparr>
                    (lua_close
                      (emit_cerr (''Script '' @ path @ '' does not contain 'update' function.'' @ endl) w2)))
              else
                (let L4 = lua_pop L3 1;
                     L5 = lua_register L4 ''frame_params_get_input_left'' Frame_params_get_input_left;
                     L6 = lua_register L5 ''frame_params_get_input_right'' Frame_params_get_input_right;
                     L7 = lua_register L6 ''component_get_entity'' Component_get_entity;
                     L8 = lua_register L7 ''entity_translate'' Entity_translate
                 in Some (None, put_component this \<lparr>lc_entity = ent, lc_lua = Some L8\<rparr> w2)))))"

text \<open>
  \<open>update\<close>, called once per frame. A failed \<open>assert(0)\<close> ends the process
  (\<open>Assertion_failed\<close>).
\<close>

definition ga_lua_component_update ::
  "('n::zero, 'f::plus) engine_env \<Rightarrow> addr \<Rightarrow> addr \<Rightarrow> ('n, 'f) world
     \<Rightarrow> (fault option \<times> ('n, 'f) world) option" where
  "ga_lua_component_update env this params w =
     (case deref_lua_component (scene w) this of
        Inl flt \<Rightarrow> Some (Some flt, w)
      | Inr c \<Rightarrow>
          (case lc_lua c of
             None \<Rightarrow> Some (None, w)
           | Some L \<Rightarrow>
               (let L1 = lua_getglobal L ''update'';
                    L2 = lua_pushlightuserdata L1 this;
                    L3 = lua_pushlightuserdata L2 params
                in case lua_pcall env L3 2 0 w of
                     None \<Rightarrow> None
                   | Some (Inl (flt, w1)) \<Rightarrow> Some (Some flt, w1)
                   | Some (Inr (status, L4, w1)) \<Rightarrow>
                       (let w2 = put_component this (c\<lparr>lc_lua := Some L4\<rparr>) w1 in
                        if status \<noteq> LUA_OK then
                          (case lua_tostring env L4 (- 1) of
                             None \<Rightarrow> Some (Some Null_string, w2)
                           | Some msg \<Rightarrow> Some (Some Assertion_failed, emit_cerr (''Error: '' @ msg) w2))
                        else Some (None, w2)))))"

section \<open>ga_mesh\<close>

subsection \<open>What the code uses of Assimp, OpenGL and the C++ runtime\<close>

definition nth_checked :: "'a list \<Rightarrow> nat \<Rightarrow> fault + 'a" where
  "nth_checked xs i = (if i < length xs then Inr (xs ! i) else Inl Out_of_bounds)"

definition HasTextureCoords0 :: "'f aiMesh \<Rightarrow> bool" where
  "HasTextureCoords0 mesh = (mTextureCoords0 mesh \<noteq> None \<and> length (mVertices mesh) > 0)"

definition HasNormals :: "'f aiMesh \<Rightarrow> bool" where
  "HasNormals mesh = (mNormals mesh \<noteq> None \<and> length (mVertices mesh) > 0)"

definition HasVertexColors0 :: "'f aiMesh \<Rightarrow> bool" where
  "HasVertexColors0 mesh = (mColors0 mesh \<noteq> None \<and> length (mVertices mesh) > 0)"

definition HasBones :: "'f aiMesh \<Rightarrow> bool" where
  "HasBones mesh = (case mBones mesh of None \<Rightarrow> False | Some bs \<Rightarrow> length bs > 0)"

text \<open>\<open>new\<close>: the next address, never null, now holding the object.\<close>

definition new_object :: "('n, 'f) object \<Rightarrow> ('n, 'f) scene \<Rightarrow> addr \<times> ('n, 'f) scene" where
  "new_object obj sc =
     (let p = Suc (alloc_mark sc) in (p, sc\<lparr>heap := (heap sc)(p \<mapsto> obj), alloc_mark := p\<rparr>))"

definition GL_NO_ERROR :: nat where "GL_NO_ERROR = 0"
definition GL_FALSE :: nat where "GL_FALSE = 0"
definition GL_TRIANGLES :: nat where "GL_TRIANGLES = 4"
definition GL_FLOAT :: nat where "GL_FLOAT = 5126"
definition GL_ARRAY_BUFFER :: nat where "GL_ARRAY_BUFFER = 34962"
definition GL_ELEMENT_ARRAY_BUFFER :: nat where "GL_ELEMENT_ARRAY_BUFFER = 34963"
definition GL_STATIC_DRAW :: nat where "GL_STATIC_DRAW = 35044"

text \<open>
  A command goes to the log; the error flag keeps the first error raised since it was
  last read.
\<close>

definition gl_issue :: "('n, 'f) engine_env \<Rightarrow> gl_cmd \<Rightarrow> gl_state \<Rightarrow> gl_state" where
  "gl_issue env cmd g =
     g\<lparr>gl_log := gl_log g @ [cmd],
       gl_error := (if gl_error g = GL_NO_ERROR then gl_driver env g cmd else gl_error g)\<rparr>"

definition glGenVertexArrays :: "('n, 'f) engine_env \<Rightarrow> gl_state \<Rightarrow> nat \<times> gl_state" where
  "glGenVertexArrays env g =
     (let name = gl_next_name g
      in (name, gl_issue env (GenVertexArrays name) (g\<lparr>gl_next_name := name + 1\<rparr>)))"

definition glGenBuffers2 :: "('n, 'f) engine_env \<Rightarrow> gl_state \<Rightarrow> (nat \<times> nat) \<times> gl_state" where
  "glGenBuffers2 env g =
     (let name = gl_next_name g
      in ((name, name + 1), gl_issue env (GenBuffers name (name + 1)) (g\<lparr>gl_next_name := name + 2\<rparr>)))"

definition glGetError :: "gl_state \<Rightarrow> nat \<times> gl_state" where
  "glGetError g = (gl_error g, g\<lparr>gl_error := GL_NO_ERROR\<rparr>)"

text \<open>\<open>sizeof(GLushort)\<close>.\<close>

definition sizeof_GLushort :: nat where
  "sizeof_GLushort = 2"

text \<open>
  \<open>ai_mat4_to_ga_mat4\<close>: the two nested loops, each entry written in turn.
\<close>

definition ai_mat4_to_ga_mat4 :: "'f ga_mat4f \<Rightarrow> 'f ga_mat4f \<Rightarrow> 'f ga_mat4f" where
  "ai_mat4_to_ga_mat4 in_mat out_mat =
     fold (\<lambda>r out. fold (\<lambda>c out'. out'(r := (out' r)(c := in_mat r c))) [0..<4] out) [0..<4] out_mat"

subsection \<open>Construction\<close>

text \<open>
  The constructor sets three members; the string and the two vectors start empty; the
  vertex format and the buffer names keep what the storage held.
\<close>

definition ga_mesh_ctor :: "'f ga_mesh \<Rightarrow> 'f ga_mesh" where
  "ga_mesh_ctor raw =
     raw\<lparr>m_name := [], m_vertex_array := [], m_index_array := [],
         m_index_count := 0, m_material := 0, m_vao := 0\<rparr>"

subsection \<open>create_from_aiMesh\<close>

definition load_vertex ::
  "('n, 'f::zero) engine_env \<Rightarrow> nat \<Rightarrow> 'f aiMesh \<Rightarrow> nat \<Rightarrow> fault + 'f ga_vertex" where
  "load_vertex env vertex_format mesh i =
     (case nth_checked (mVertices mesh) i of
        Inl flt \<Rightarrow> Inl flt
      | Inr p \<Rightarrow>
          (let vertex0 = \<lparr>v_position = Vec3 (vec_x p) (vec_y p) (vec_z p),
                          v_uv = Vec2 0 0, v_normal = Vec3 0 0 0\<rparr>;
               with_uv =
                 (if vertex_format AND k_vertex_attribute_uv env \<noteq> 0 then
                    (case mTextureCoords0 mesh of
                       None \<Rightarrow> Inl Null_pointer
                     | Some tcs \<Rightarrow>
                         (case nth_checked tcs i of
                            Inl flt \<Rightarrow> Inl flt
                          | Inr t \<Rightarrow> Inr (vertex0\<lparr>v_uv := Vec2 (vec_x t) (vec_y t)\<rparr>)))
                  else Inr vertex0)
           in case with_uv of
                Inl flt \<Rightarrow> Inl flt
              | Inr vertex1 \<Rightarrow>
                  (if vertex_format AND k_vertex_attribute_normal env \<noteq> 0 then
                     (case mNormals mesh of
                        None \<Rightarrow> Inl Null_pointer
                      | Some ns \<Rightarrow>
                          (case nth_checked ns i of
                             Inl flt \<Rightarrow> Inl flt
                           | Inr nrm \<Rightarrow>
                               Inr (vertex1\<lparr>v_normal := Vec3 (vec_x nrm) (vec_y nrm) (vec_z nrm)\<rparr>)))
                   else Inr vertex1)))"

text \<open>The vertex loop, \<open>i\<close> running over the given indices, pushing onto the array.\<close>

fun load_vertices ::
  "('n, 'f::zero) engine_env \<Rightarrow> nat \<Rightarrow> 'f aiMesh \<Rightarrow> nat list \<Rightarrow> 'f ga_vertex list
     \<Rightarrow> fault + 'f ga_vertex list" where
  "load_vertices env vertex_format mesh [] vertex_array = Inr vertex_array"
| "load_vertices env vertex_format mesh (i # rest) vertex_array =
     (case load_vertex env vertex_format mesh i of
        Inl flt \<Rightarrow> Inl flt
      | Inr vertex \<Rightarrow> load_vertices env vertex_format mesh rest (vertex_array @ [vertex]))"

text \<open>
  The index loop, over the faces in order. Each turn reads slots 0, 1 and 2 of the face,
  whatever its \<open>mNumIndices\<close>, pushes the three values, and writes a line to \<open>cout\<close> if
  the face has more than three indices. A read past the end of the face's array is a
  fault.
\<close>

fun load_indices ::
  "('n, 'f) engine_env \<Rightarrow> aiFace list \<Rightarrow> nat list \<times> string \<Rightarrow> fault + nat list \<times> string" where
  "load_indices env [] (index_array, out) = Inr (index_array, out)"
| "load_indices env (face # rest) (index_array, out) =
     (case nth_checked (mIndices face) 0 of
        Inl flt \<Rightarrow> Inl flt
      | Inr i0 \<Rightarrow>
     (case nth_checked (mIndices face) 1 of
        Inl flt \<Rightarrow> Inl flt
      | Inr i1 \<Rightarrow>
     (case nth_checked (mIndices face) 2 of
        Inl flt \<Rightarrow> Inl flt
      | Inr i2 \<Rightarrow>
          load_indices env rest
            (index_array @ [index_cast env i0] @ [index_cast env i1] @ [index_cast env i2],
             if length (mIndices face) > 3
             then out @ ''Face with more than 3 verts: mNumIndices=''
                      @ string_of_nat (length (mIndices face)) @ endl
             else out))))"

definition material_init :: "('n, 'f) engine_env \<Rightarrow> addr \<Rightarrow> ('n, 'f) scene \<Rightarrow> ('n, 'f) scene" where
  "material_init env mat sc = sc\<lparr>gl := gl_issue env (Material_init mat) (gl sc)\<rparr>"

definition load_material ::
  "('n, 'f::zero) engine_env \<Rightarrow> 'f aiMaterial \<Rightarrow> ('n, 'f) scene \<Rightarrow> addr \<times> ('n, 'f) scene" where
  "load_material env ai_material sc =
     (case diffuse_textures ai_material of
        diffuse_texture_path # _ \<Rightarrow>
          (let (mat, sc1) = new_object (Obj_material (Ga_lit_texture_material diffuse_texture_path)) sc
           in (mat, material_init env mat sc1))
      | [] \<Rightarrow>
          (let (r, g, b) = (case color_diffuse ai_material of Some c \<Rightarrow> c | None \<Rightarrow> (0, 0, 0));
               (mat, sc1) = new_object (Obj_material (Ga_lit_material r g b)) sc
           in (mat, material_init env mat sc1)))"

text \<open>The value of \<open>_vertex_format\<close> after the four tests on the imported mesh.\<close>

definition vertex_format_of :: "('n, 'f) engine_env \<Rightarrow> 'f aiMesh \<Rightarrow> nat" where
  "vertex_format_of env mesh =
     (let f0 = 1;
          f1 = (if HasTextureCoords0 mesh then f0 OR k_vertex_attribute_uv env else f0);
          f2 = (if HasNormals mesh then f1 OR k_vertex_attribute_normal env else f1);
          f3 = (if HasVertexColors0 mesh then f2 OR k_vertex_attribute_color env else f2);
          f4 = (if HasBones mesh then f3 OR k_vertex_attribute_weight env else f3)
      in f4)"

definition create_from_aiMesh ::
  "('n, 'f::zero) engine_env \<Rightarrow> 'f ga_mesh \<Rightarrow> 'f aiMesh \<Rightarrow> 'f aiScene \<Rightarrow> ('n, 'f) scene
     \<Rightarrow> fault + 'f ga_mesh \<times> ('n, 'f) scene" where
  "create_from_aiMesh env m mesh ai_scene sc =
     (let f4 = vertex_format_of env mesh
      in
      case load_vertices env f4 mesh [0..<length (mVertices mesh)] (m_vertex_array m) of
        Inl flt \<Rightarrow> Inl flt
      | Inr vertex_array \<Rightarrow>
     (case load_indices env (mFaces mesh) (m_index_array m, cout sc) of
        Inl flt \<Rightarrow> Inl flt
      | Inr (index_array, out) \<Rightarrow>
     (case nth_checked (mMaterials ai_scene) (mMaterialIndex mesh) of
        Inl flt \<Rightarrow> Inl flt
      | Inr ai_material \<Rightarrow>
          (let (mat, sc1) = load_material env ai_material (sc\<lparr>cout := out\<rparr>)
           in Inr (m\<lparr>m_vertex_format := f4, m_name := mName mesh,
                     m_vertex_array := vertex_array, m_index_array := index_array,
                     m_material := mat\<rparr>, sc1)))))"

subsection \<open>make_buffers and assemble_drawcall\<close>

definition attrib ::
  "('n, 'f) engine_env \<Rightarrow> nat \<Rightarrow> nat \<Rightarrow> nat \<Rightarrow> gl_state \<Rightarrow> gl_state" where
  "attrib env index n offset g =
     gl_issue env (EnableVertexAttribArray index)
       (gl_issue env (VertexAttribPointer index n GL_FLOAT GL_FALSE (vertex_size env) offset) g)"

definition make_buffers ::
  "('n, 'f) engine_env \<Rightarrow> 'f ga_mesh \<Rightarrow> ('n, 'f) scene \<Rightarrow> fault + 'f ga_mesh \<times> ('n, 'f) scene" where
  "make_buffers env m sc =
     (let (vao, g1) = glGenVertexArrays env (gl sc);
          g2 = gl_issue env (BindVertexArray vao) g1;
          (vbo, g3) = glGenBuffers2 env g2;
          g4 = gl_issue env (BindBuffer GL_ARRAY_BUFFER (fst vbo)) g3;
          g5 = gl_issue env
                 (BufferData GL_ARRAY_BUFFER (length (m_vertex_array m) * vertex_size env) GL_STATIC_DRAW) g4;
          g6 = attrib env 0 3 0 g5;
          g7 = (if m_vertex_format m AND k_vertex_attribute_normal env \<noteq> 0
                then attrib env 1 3 12 g6 else g6);
          g8 = (if m_vertex_format m AND k_vertex_attribute_color env \<noteq> 0
                then attrib env 2 3 24 g7 else g7);
          g9 = (if m_vertex_format m AND k_vertex_attribute_uv env \<noteq> 0
                then attrib env 3 2 36 g8 else g8);
          index_count = length (m_index_array m);
          g10 = gl_issue env (BindBuffer GL_ELEMENT_ARRAY_BUFFER (snd vbo)) g9;
          g11 = gl_issue env
                  (BufferData GL_ELEMENT_ARRAY_BUFFER (index_count * sizeof_GLushort) GL_STATIC_DRAW) g10;
          g12 = gl_issue env (BindVertexArray 0) g11;
          (err, g13) = glGetError g12
      in
      if err = GL_NO_ERROR
      then Inr (m\<lparr>m_vao := vao, m_vbo := vbo, m_index_count := index_count\<rparr>, sc\<lparr>gl := g13\<rparr>)
      else Inl Assertion_failed)"

definition assemble_drawcall :: "'f ga_mesh \<Rightarrow> 'f ga_static_drawcall \<Rightarrow> 'f ga_static_drawcall" where
  "assemble_drawcall m draw =
     draw\<lparr>dc_vao := m_vao m, dc_index_count := m_index_count m,
          dc_draw_mode := GL_TRIANGLES, dc_material := m_material m\<rparr>"

section \<open>ga_model_component\<close>

definition deref_mesh :: "('n, 'f) scene \<Rightarrow> addr \<Rightarrow> fault + 'f ga_mesh" where
  "deref_mesh sc p =
     (case deref sc p of
        Inl f \<Rightarrow> Inl f
      | Inr (Obj_mesh m) \<Rightarrow> Inr m
      | Inr _ \<Rightarrow> Inl Wild_pointer)"

text \<open>
  Modelled from the spec: the constructors of \<open>ga_node\<close> (\<open>graphics/ga_node\<close> is not
  part of the sources). A new node has an empty name, no meshes and no children;
  its matrices hold what the storage held.
\<close>

definition ga_node_ctor :: "'f ga_node \<Rightarrow> 'f ga_node" where
  "ga_node_ctor raw = Ga_node [] (nd_transform raw) (nd_world raw) [] []"

text \<open>
  Modelled from the spec: \<open>ga_mat4f::transpose\<close> (\<open>math/ga_mat4f\<close> is not part of the
  sources), the "row/column transpose correction".
\<close>

definition ga_mat4f_transpose :: "'f ga_mat4f \<Rightarrow> 'f ga_mat4f" where
  "ga_mat4f_transpose m = (\<lambda>r c. m c r)"

text \<open>The loop over \<open>ai_node->mMeshes\<close>: each entry indexes the component's \<open>_meshes\<close>.\<close>

fun attach_meshes :: "addr list \<Rightarrow> nat list \<Rightarrow> addr list \<Rightarrow> fault + addr list" where
  "attach_meshes meshes [] node_meshes = Inr node_meshes"
| "attach_meshes meshes (i # rest) node_meshes =
     (case nth_checked meshes i of
        Inl flt \<Rightarrow> Inl flt
      | Inr p \<Rightarrow> attach_meshes meshes rest (node_meshes @ [p]))"

text \<open>
  \<open>process_node_recursive\<close>, with its loop over the children as a second function. The
  scene argument of the source is not used by it.
\<close>

fun process_node_recursive ::
      "('n, 'f) engine_env \<Rightarrow> addr list \<Rightarrow> 'f aiNode \<Rightarrow> 'f ga_node \<Rightarrow> fault + 'f ga_node"
  and process_children ::
      "('n, 'f) engine_env \<Rightarrow> addr list \<Rightarrow> 'f aiNode list \<Rightarrow> 'f ga_node \<Rightarrow> fault + 'f ga_node"
where
  "process_node_recursive env meshes (AiNode ai_name ai_transformation ai_meshes ai_children) node =
     (let t = ga_mat4f_transpose (ai_mat4_to_ga_mat4 ai_transformation (nd_transform node))
      in case attach_meshes meshes ai_meshes (nd_meshes node) of
           Inl flt \<Rightarrow> Inl flt
         | Inr ms \<Rightarrow>
             process_children env meshes ai_children
               (Ga_node ai_name t (nd_world node) ms (nd_children node)))"
| "process_children env meshes [] node = Inr node"
| "process_children env meshes (ai_child # rest) node =
     (case process_node_recursive env meshes ai_child (ga_node_ctor (raw_node env)) of
        Inl flt \<Rightarrow> Inl flt
      | Inr child_node \<Rightarrow>
          process_children env meshes rest
            (Ga_node (nd_name node) (nd_transform node) (nd_world node) (nd_meshes node)
                     (nd_children node @ [child_node])))"

text \<open>The loop over the scene's meshes: allocate, fill, build buffers, keep the pointer.\<close>

fun build_meshes ::
  "('n, 'f::zero) engine_env \<Rightarrow> 'f aiScene \<Rightarrow> 'f aiMesh list \<Rightarrow> addr list \<times> ('n, 'f) scene
     \<Rightarrow> fault + addr list \<times> ('n, 'f) scene" where
  "build_meshes env ai_scene [] (meshes, sc) = Inr (meshes, sc)"
| "build_meshes env ai_scene (ai_mesh # rest) (meshes, sc) =
     (let (mesh, sc0) = new_object (Obj_mesh (ga_mesh_ctor (raw_mesh env))) sc
      in case create_from_aiMesh env (ga_mesh_ctor (raw_mesh env)) ai_mesh ai_scene sc0 of
           Inl flt \<Rightarrow> Inl flt
         | Inr (m1, sc1) \<Rightarrow>
        (case make_buffers env m1 sc1 of
           Inl flt \<Rightarrow> Inl flt
         | Inr (m2, sc2) \<Rightarrow>
             build_meshes env ai_scene rest
               (meshes @ [mesh], sc2\<lparr>heap := (heap sc2)(mesh \<mapsto> Obj_mesh m2)\<rparr>)))"

text \<open>
  The constructor. \<open>ga_component(ent)\<close> keeps the entity pointer; \<open>_meshes\<close> starts
  empty and \<open>_root\<close> is a new node.
\<close>

definition ga_model_component_ctor ::
  "('n, 'f::zero) engine_env \<Rightarrow> addr \<Rightarrow> string \<Rightarrow> ('n, 'f) scene
     \<Rightarrow> fault + 'f ga_model_component \<times> ('n, 'f) scene" where
  "ga_model_component_ctor env ent model_file sc =
     (let model_path = g_root_path env @ model_file;
          ai_scene = ReadFile env model_path;
          this = \<lparr>mc_entity = ent, mc_scene = ai_scene, mc_meshes = [],
                  mc_root = ga_node_ctor (raw_node env)\<rparr>
      in
      case ai_scene of
        None \<Rightarrow> Inr (this, sc\<lparr>cout := cout sc @ ''error: couldn't load obj'' @ endl\<rparr>)
      | Some s \<Rightarrow>
          (case build_meshes env s (mMeshes s)
                  ([], sc\<lparr>cout := cout sc @ ''number of meshes: ''
                                  @ string_of_nat (length (mMeshes s)) @ endl\<rparr>) of
             Inl flt \<Rightarrow> Inl flt
           | Inr (meshes, sc1) \<Rightarrow>
               (case process_node_recursive env meshes (mRootNode s) (mc_root this) of
                  Inl flt \<Rightarrow> Inl flt
                | Inr root \<Rightarrow> Inr (this\<lparr>mc_meshes := meshes, mc_root := root\<rparr>, sc1))))"

text \<open>
  Modelled from the spec: \<open>ga_node::update\<close> and \<open>ga_node::draw_recursive\<close>
  (\<open>graphics/ga_node\<close> is not part of the sources). The update pass sets a node's
  world transform to its local transform times the parent's world transform and goes on
  into the children with it. The draw pass assembles, for each mesh the node refers to,
  the mesh's draw call with the node's world transform and appends it to the frame's
  draw calls, then goes on into the children.
\<close>

fun ga_node_update :: "('n, 'f) engine_env \<Rightarrow> 'f ga_node \<Rightarrow> 'f ga_mat4f \<Rightarrow> 'f ga_node" where
  "ga_node_update env (Ga_node nm t w ms chs) parent =
     (let w' = mat_mul env t parent
      in Ga_node nm t w' ms (map (\<lambda>ch. ga_node_update env ch w') chs))"

fun draw_meshes ::
  "'f ga_mat4f \<Rightarrow> addr list \<Rightarrow> addr \<Rightarrow> ('n, 'f) scene \<Rightarrow> fault + ('n, 'f) scene" where
  "draw_meshes w [] params sc = Inr sc"
| "draw_meshes w (p # rest) params sc =
     (case deref_mesh sc p of
        Inl flt \<Rightarrow> Inl flt
      | Inr m \<Rightarrow>
     (case deref_frame_params sc params of
        Inl flt \<Rightarrow> Inl flt
      | Inr fp \<Rightarrow>
          (let draw = assemble_drawcall m
                        \<lparr>dc_vao = 0, dc_index_count = 0, dc_draw_mode = 0, dc_material = 0,
                         dc_transform = w\<rparr>
           in draw_meshes w rest params
                (sc\<lparr>heap := (heap sc)(params \<mapsto>
                       Obj_frame_params (fp\<lparr>fp_static_drawcalls := fp_static_drawcalls fp @ [draw]\<rparr>))\<rparr>))))"

fun ga_node_draw_recursive ::
      "'f ga_node \<Rightarrow> addr \<Rightarrow> ('n, 'f) scene \<Rightarrow> fault + ('n, 'f) scene"
  and draw_children ::
      "'f ga_node list \<Rightarrow> addr \<Rightarrow> ('n, 'f) scene \<Rightarrow> fault + ('n, 'f) scene"
where
  "ga_node_draw_recursive (Ga_node nm t w ms chs) params sc =
     (case draw_meshes w ms params sc of
        Inl flt \<Rightarrow> Inl flt
      | Inr sc1 \<Rightarrow> draw_children chs params sc1)"
| "draw_children [] params sc = Inr sc"
| "draw_children (ch # rest) params sc =
     (case ga_node_draw_recursive ch params sc of
        Inl flt \<Rightarrow> Inl flt
      | Inr sc1 \<Rightarrow> draw_children rest params sc1)"

text \<open>
  Modelled from the spec: \<open>ga_entity::get_transform\<close> (\<open>entity/ga_entity\<close> is not part
  of the sources), the "world transform read" of the entity.
\<close>

definition get_transform :: "'f ga_entity \<Rightarrow> 'f ga_mat4f" where
  "get_transform e = e_transform e"

text \<open>
  \<open>update\<close>: reads \<open>params->_delta_time\<close> and the entity's transform, runs the update
  pass from the root and then the draw pass.
\<close>

definition ga_model_component_update ::
  "('n, 'f) engine_env \<Rightarrow> 'f ga_model_component \<Rightarrow> addr \<Rightarrow> ('n, 'f) scene
     \<Rightarrow> fault + 'f ga_model_component \<times> ('n, 'f) scene" where
  "ga_model_component_update env this params sc =
     (case deref_frame_params sc params of
        Inl flt \<Rightarrow> Inl flt
      | Inr fp \<Rightarrow>
     (case deref_entity sc (mc_entity this) of
        Inl flt \<Rightarrow> Inl flt
      | Inr e \<Rightarrow>
          (let root = ga_node_update env (mc_root this) (get_transform e)
           in case ga_node_draw_recursive root params sc of
                Inl flt \<Rightarrow> Inl flt
              | Inr sc1 \<Rightarrow> Inr (this\<lparr>mc_root := root\<rparr>, sc1))))"

section \<open>Example inputs\<close>

text \<open>
  A small concrete setting on which the theorems below are exercised: numbers and floats
  are integers; three scripts (the first defines \<open>update\<close>, the second does not, the
  third defines it and then raises an error at top level); one model file with a
  triangle and a quad, one with two triangles; an entity at address 16 and a frame's
  parameters at address 32.
\<close>

definition example_interp ::
  "int lua_value \<Rightarrow> int lua_value list \<Rightarrow> (string \<Rightarrow> int lua_value) \<Rightarrow> (int, int) scene
     \<Rightarrow> (fault + int call_outcome \<times> (string \<Rightarrow> int lua_value) \<times> (int, int) scene) option" where
  "example_interp f args g sc =
     (if f = LFunction 100 then Some (Inr (Returned [], g(''update'' := LFunction 200), sc))
      else if f = LFunction 101 then Some (Inr (Returned [], g(''speed'' := LNumber 2), sc))
      else if f = LFunction 102
        then Some (Inr (Raised (LString ''boom''), g(''update'' := LFunction 200), sc))
      else if f = LFunction 200 then Some (Inr (Returned [], g, sc))
      else Some (Inr (Raised (LString ''attempt to call a value''), g, sc)))"

definition example_material :: "int aiMaterial" where
  "example_material = \<lparr>diffuse_textures = [], color_diffuse = Some (1, 0, 0)\<rparr>"

definition example_quad_mesh :: "int aiMesh" where
  "example_quad_mesh =
     \<lparr>mName = ''quad'',
      mVertices = [Vec3 0 0 0, Vec3 1 0 0, Vec3 1 1 0, Vec3 0 1 0],
      mTextureCoords0 = None, mNormals = None, mColors0 = None, mBones = None,
      mFaces = [\<lparr>mIndices = [0, 1, 2]\<rparr>, \<lparr>mIndices = [0, 1, 2, 3]\<rparr>],
      mMaterialIndex = 0\<rparr>"

definition example_tri_mesh :: "int aiMesh" where
  "example_tri_mesh =
     \<lparr>mName = ''tris'',
      mVertices = [Vec3 0 0 0, Vec3 1 0 0, Vec3 1 1 0, Vec3 0 1 0],
      mTextureCoords0 = None, mNormals = None, mColors0 = None, mBones = None,
      mFaces = [\<lparr>mIndices = [0, 1, 2]\<rparr>, \<lparr>mIndices = [0, 2, 3]\<rparr>],
      mMaterialIndex = 0\<rparr>"

definition example_aiScene :: "int aiScene" where
  "example_aiScene =
     \<lparr>mMeshes = [example_tri_mesh, example_quad_mesh],
      mMaterials = [example_material],
      mRootNode = AiNode ''root'' (\<lambda>r c. if r = c then 1 else 0) [0, 1] []\<rparr>"

definition example_env :: "(int, int) engine_env" where
  "example_env =
     \<lparr>g_root_path = ''data/'',
      load_chunk = (\<lambda>p. if p = ''data/move.lua'' then Inr (LFunction 100)
                         else if p = ''data/idle.lua'' then Inr (LFunction 101)
                         else if p = ''data/boom.lua'' then Inr (LFunction 102)
                         else Inl (File_error, ''cannot open '' @ p)),
      openlibs_globals = (\<lambda>name. LNil),
      interp = example_interp,
      str2number = (\<lambda>s. None),
      number2str = (\<lambda>d. ''0''),
      float_cast = (\<lambda>d. d),
      k_button_j = 64,
      k_button_l = 256,
      ReadFile = (\<lambda>p. if p = ''data/model.obj'' then Some example_aiScene else None),
      k_vertex_attribute_uv = 8,
      k_vertex_attribute_normal = 2,
      k_vertex_attribute_color = 4,
      k_vertex_attribute_weight = 16,
      vertex_size = 32,
      index_cast = (\<lambda>i. i mod 65536),
      mat_mul = (\<lambda>a b r c. a r 0 * b 0 c + a r 1 * b 1 c + a r 2 * b 2 c + a r 3 * b 3 c),
      gl_driver = (\<lambda>g cmd. 0),
      raw_mesh = \<lparr>m_vertex_format = 0, m_name = [], m_vertex_array = [], m_index_array = [],
                  m_index_count = 0, m_material = 0, m_vao = 0, m_vbo = (0, 0)\<rparr>,
      raw_node = Ga_node [] (\<lambda>r c. 0) (\<lambda>r c. 0) [] []\<rparr>"

definition example_scene :: "(int, int) scene" where
  "example_scene =
     \<lparr>heap = [16 \<mapsto> Obj_entity \<lparr>e_transform = (\<lambda>r c. if r = c then 1 else 0)\<rparr>,
              32 \<mapsto> Obj_frame_params
                     \<lparr>fp_delta_time = 16, fp_button_mask = 64, fp_static_drawcalls = []\<rparr>],
      alloc_mark = 32,
      gl = \<lparr>gl_log = [], gl_next_name = 1, gl_error = 0\<rparr>,
      cerr = [],
      cout = []\<rparr>"

definition example_world :: "(int, int) world" where
  "example_world = \<lparr>scene = example_scene, lua_open = 0, pcall_log = []\<rparr>"

section \<open>Properties of the scripting component\<close>

subsection \<open>The constructor, case by case\<close>


lemma pcall_chunk:
  assumes "call_value env chunk [] g (scene w) = Some (Inr (out, g1, sc1))"
  shows "lua_pcall env \<lparr>globals = g, stack = [chunk]\<rparr> 0 0 w =
           Some (Inr (case out of Raised e \<Rightarrow> LUA_ERRRUN | Returned rs \<Rightarrow> LUA_OK,
                      \<lparr>globals = g1, stack = (case out of Raised e \<Rightarrow> [e] | Returned rs \<Rightarrow> [])\<rparr>,
                      w\<lparr>pcall_log := pcall_log w @ [(chunk, [])], scene := sc1\<rparr>))"
  using assms
  by (cases out) (simp_all add: lua_pcall_def adjust_results_def)



lemma isfunction_top:
  "lua_isfunction (lua_getglobal L name) (lua_gettop (lua_getglobal L name))
     = is_function_value (globals L name)"
  by (simp add: lua_isfunction_def lua_getglobal_def lua_push_def lua_gettop_def index2value_def)

lemma gettop_getglobal: "lua_gettop (lua_getglobal L name) \<noteq> 0"
  by (simp add: lua_getglobal_def lua_push_def lua_gettop_def)

lemma ctor_chunk_ran:
  assumes load: "load_chunk env (g_root_path env @ path) = Inr chunk"
    and run: "call_value env chunk [] (openlibs_globals env) (scene w) = Some (Inr (out, g1, sc1))"
  shows "ga_lua_component_ctor env this ent path w =
           Some (None,
             if is_function_value (g1 ''update'')
             then put_component this
                    \<lparr>lc_entity = ent,
                     lc_lua = Some \<lparr>globals = g1
                         (''frame_params_get_input_left'' := LNative Frame_params_get_input_left,
                          ''frame_params_get_input_right'' := LNative Frame_params_get_input_right,
                          ''component_get_entity'' := LNative Component_get_entity,
                          ''entity_translate'' := LNative Entity_translate),
                        stack = (case out of Raised e \<Rightarrow> [e] | Returned rs \<Rightarrow> [])\<rparr>\<rparr>
                    \<lparr>scene = sc1, lua_open = lua_open w + 1, pcall_log = pcall_log w @ [(chunk, [])]\<rparr>
             else put_component this \<lparr>lc_entity = ent, lc_lua = None\<rparr>
                    \<lparr>scene = sc1\<lparr>cerr := cerr sc1 @ ''Script '' @ path
                                     @ '' does not contain 'update' function.'' @ endl\<rparr>,
                     lua_open = lua_open w, pcall_log = pcall_log w @ [(chunk, [])]\<rparr>)"
proof -
  have p: "lua_pcall env \<lparr>globals = openlibs_globals env, stack = [chunk]\<rparr> 0 0 (luaL_newstate w) =
           Some (Inr (case out of Raised e \<Rightarrow> LUA_ERRRUN | Returned rs \<Rightarrow> LUA_OK,
                      \<lparr>globals = g1, stack = (case out of Raised e \<Rightarrow> [e] | Returned rs \<Rightarrow> [])\<rparr>,
                      (luaL_newstate w)\<lparr>pcall_log := pcall_log (luaL_newstate w) @ [(chunk, [])],
                                        scene := sc1\<rparr>))"
    by (rule pcall_chunk) (simp add: luaL_newstate_def run)
  show ?thesis
    unfolding ga_lua_component_ctor_def
    by (simp add: luaL_loadfile_def load lua_push_def p isfunction_top gettop_getglobal Let_def)
      (simp add: lua_getglobal_def lua_push_def lua_pop_def lua_register_def luaL_newstate_def
        lua_close_def emit_cerr_def put_component_def)
qed



subsection \<open>The per-frame call, case by case\<close>


lemma deref_put_component:
  "this \<noteq> 0 \<Longrightarrow> deref_lua_component (scene (put_component this c w)) this = Inr c"
  by (simp add: deref_lua_component_def deref_def put_component_def)

lemma deref_component_nonnull: "deref_lua_component sc this = Inr c \<Longrightarrow> this \<noteq> 0"
  by (cases "this = 0") (simp_all add: deref_lua_component_def deref_def)

lemma pcall_two_args:
  "lua_pcall env \<lparr>globals = g, stack = base @ [f, a, b]\<rparr> 2 0 w =
     (case call_value env f [a, b] g (scene (w\<lparr>pcall_log := pcall_log w @ [(f, [a, b])]\<rparr>)) of
        None \<Rightarrow> None
      | Some (Inl flt) \<Rightarrow> Some (Inl (flt, w\<lparr>pcall_log := pcall_log w @ [(f, [a, b])]\<rparr>))
      | Some (Inr (Raised e, g', sc)) \<Rightarrow>
          Some (Inr (LUA_ERRRUN, \<lparr>globals = g', stack = base @ [e]\<rparr>,
                     w\<lparr>pcall_log := pcall_log w @ [(f, [a, b])], scene := sc\<rparr>))
      | Some (Inr (Returned rs, g', sc)) \<Rightarrow>
          Some (Inr (LUA_OK, \<lparr>globals = g', stack = base\<rparr>,
                     w\<lparr>pcall_log := pcall_log w @ [(f, [a, b])], scene := sc\<rparr>)))"
  by (simp add: lua_pcall_def adjust_results_def nth_append Let_def
      split: option.splits sum.splits call_outcome.splits prod.splits)

lemma update_stack:
  "lua_pushlightuserdata (lua_pushlightuserdata (lua_getglobal L name) this) params =
     \<lparr>globals = globals L,
      stack = stack L @ [globals L name, LLightUserdata this, LLightUserdata params]\<rparr>"
  by (simp add: lua_pushlightuserdata_def lua_getglobal_def lua_push_def)

lemma update_enabled:
  assumes "deref_lua_component (scene w) this = Inr c" and "lc_lua c = Some L"
  shows "ga_lua_component_update env this params w =
     (case call_value env (globals L ''update'') [LLightUserdata this, LLightUserdata params]
             (globals L) (scene w) of
        None \<Rightarrow> None
      | Some (Inl flt) \<Rightarrow>
          Some (Some flt, w\<lparr>pcall_log := pcall_log w
                  @ [(globals L ''update'', [LLightUserdata this, LLightUserdata params])]\<rparr>)
      | Some (Inr (Raised e, g', sc)) \<Rightarrow>
          (let w2 = put_component this (c\<lparr>lc_lua := Some \<lparr>globals = g', stack = stack L @ [e]\<rparr>\<rparr>)
                      (w\<lparr>pcall_log := pcall_log w
                           @ [(globals L ''update'', [LLightUserdata this, LLightUserdata params])],
                         scene := sc\<rparr>)
           in case lua_tostring env \<lparr>globals = g', stack = stack L @ [e]\<rparr> (- 1) of
                None \<Rightarrow> Some (Some Null_string, w2)
              | Some msg \<Rightarrow> Some (Some Assertion_failed, emit_cerr (''Error: '' @ msg) w2))
      | Some (Inr (Returned rs, g', sc)) \<Rightarrow>
          Some (None, put_component this (c\<lparr>lc_lua := Some \<lparr>globals = g', stack = stack L\<rparr>\<rparr>)
                      (w\<lparr>pcall_log := pcall_log w
                           @ [(globals L ''update'', [LLightUserdata this, LLightUserdata params])],
                         scene := sc\<rparr>)))"
  using assms
  by (simp add: ga_lua_component_update_def update_stack pcall_two_args Let_def
      split: option.splits sum.splits call_outcome.splits prod.splits)

lemma pcall_log_put [simp]: "pcall_log (put_component this c w) = pcall_log w"
  by (simp add: put_component_def)

lemma pcall_log_emit [simp]: "pcall_log (emit_cerr msg w) = pcall_log w"
  by (simp add: emit_cerr_def)

subsection \<open>The registered C functions\<close>

lemma touserdata_1 [simp]:
  "lua_touserdata \<lparr>globals = g, stack = LLightUserdata p # rest\<rparr> 1 = p"
  by (simp add: lua_touserdata_def index2value_def lua_gettop_def)

lemma tonumber_at:
  "i < length st \<Longrightarrow> st ! i = LNumber d \<Longrightarrow>
   lua_tonumber env \<lparr>globals = g, stack = st\<rparr> (int i + 1) = d"
  by (simp add: lua_tonumber_def index2value_def lua_gettop_def)

lemma bit_mask_test: "(0 < m AND (2::nat) ^ i) = bit m i"
  using bit_iff_and_push_bit_not_eq_0 [of m i] by (simp add: push_bit_eq_mult)

lemma translate_position:
  "position (translate v e) =
     Vec3 (vec_x (position e) + vec_x v) (vec_y (position e) + vec_y v) (vec_z (position e) + vec_z v)"
  by (simp add: position_def translate_def)



lemma example_call_move:
  "call_value example_env (LFunction 100) [] (\<lambda>name. LNil) example_scene
     = Some (Inr (Returned [], (\<lambda>name. LNil)(''update'' := LFunction 200), example_scene))"
  by (simp add: call_value_def example_env_def example_interp_def)

lemma example_call_update:
  "call_value example_env (LFunction 200) args g sc = Some (Inr (Returned [], g, sc))"
  by (simp add: call_value_def example_env_def example_interp_def)

lemma example_env_fields [simp]:
  "g_root_path example_env = ''data/''"
  "openlibs_globals example_env = (\<lambda>name. LNil)"
  "load_chunk example_env ''data/move.lua'' = Inr (LFunction 100)"
  "load_chunk example_env ''data/idle.lua'' = Inr (LFunction 101)"
  "load_chunk example_env ''data/boom.lua'' = Inr (LFunction 102)"
  "float_cast example_env = (\<lambda>d. d)"
  "k_button_j example_env = 64"
  "k_button_l example_env = 256"
  "ReadFile example_env ''data/missing.obj'' = None"
  "gl_driver example_env = (\<lambda>g cmd. 0)"
  "index_cast example_env = (\<lambda>i. i mod 65536)"
  by (simp_all add: example_env_def)

lemma example_world_fields [simp]:
  "scene example_world = example_scene" "lua_open example_world = 0"
  "pcall_log example_world = []"
  by (simp_all add: example_world_def)

lemma example_deref [simp]:
  "deref_entity example_scene 16 = Inr \<lparr>e_transform = (\<lambda>r c. if r = c then 1 else 0)\<rparr>"
  "deref_frame_params example_scene 32
     = Inr \<lparr>fp_delta_time = 16, fp_button_mask = 64, fp_static_drawcalls = []\<rparr>"
  by (simp_all add: deref_entity_def deref_frame_params_def deref_def example_scene_def)


section \<open>The claims about the scripting component\<close>



text \<open>
  C2. Called with four arguments, the first a handle of an entity and the others
  numbers, \<open>entity_translate\<close> returns nothing to the script and replaces the entity by
  the translated one, whose position is the old one plus the three numbers cast to
  \<open>float\<close>; nothing else in the scene changes. Called with any other number of
  arguments it leaves the object store as it was and writes one line to \<open>cerr\<close>.
\<close>

theorem C2_entity_translate:
  "(deref_entity sc p = Inr e \<longrightarrow>
      call_native env Entity_translate [LLightUserdata p, LNumber dx, LNumber dy, LNumber dz] g sc
        = Inr (Returned [], g,
               sc\<lparr>heap := (heap sc)(p \<mapsto> Obj_entity
                     (translate (Vec3 (float_cast env dx) (float_cast env dy) (float_cast env dz)) e))\<rparr>)
      \<and> position (translate (Vec3 (float_cast env dx) (float_cast env dy) (float_cast env dz)) e)
        = Vec3 (vec_x (position e) + float_cast env dx)
               (vec_y (position e) + float_cast env dy)
               (vec_z (position e) + float_cast env dz))
   \<and> (length args \<noteq> 4 \<longrightarrow>
      call_native env Entity_translate args g sc
        = Inr (Returned [], g,
               sc\<lparr>cerr := cerr sc @ ''Function entity_translate expected 4 arguments but got ''
                      @ string_of_int (int (length args)) @ ''.'' @ endl\<rparr>))"
proof -
  let ?L = "\<lparr>globals = g, stack = [LLightUserdata p, LNumber dx, LNumber dy, LNumber dz]\<rparr>"
  have n2: "lua_tonumber env ?L 2 = dx"
    using tonumber_at [of 1 "[LLightUserdata p, LNumber dx, LNumber dy, LNumber dz]" dx env g] by simp
  have n3: "lua_tonumber env ?L 3 = dy"
    using tonumber_at [of 2 "[LLightUserdata p, LNumber dx, LNumber dy, LNumber dz]" dy env g] by simp
  have n4: "lua_tonumber env ?L 4 = dz"
    using tonumber_at [of 3 "[LLightUserdata p, LNumber dx, LNumber dy, LNumber dz]" dz env g] by simp
  show ?thesis
    by (simp add: call_native_def lua_entity_translate_def lua_gettop_def n2 n3 n4
        translate_position)
qed

theorem C2_witness:
  "call_native example_env Entity_translate
       [LLightUserdata 16, LNumber 3, LNumber 4, LNumber 5] (\<lambda>name. LNil) example_scene
     = Inr (Returned [], (\<lambda>name. LNil),
            example_scene\<lparr>heap := (heap example_scene)(16 \<mapsto> Obj_entity
               (translate (Vec3 3 4 5) \<lparr>e_transform = (\<lambda>r c. if r = c then 1 else 0)\<rparr>))\<rparr>)
   \<and> position (translate (Vec3 3 4 5) \<lparr>e_transform = (\<lambda>r c. if r = c then 1 else (0::int))\<rparr>)
     = Vec3 3 4 5
   \<and> call_native example_env Entity_translate [LLightUserdata 16] (\<lambda>name. LNil) example_scene
     = Inr (Returned [], (\<lambda>name. LNil),
            example_scene\<lparr>cerr := cerr example_scene
               @ ''Function entity_translate expected 4 arguments but got ''
               @ string_of_int 1 @ ''.'' @ endl\<rparr>)"
  using C2_entity_translate
          [where sc = example_scene and p = 16 and env = example_env and dx = 3 and dy = 4 and dz = 5
             and e = "\<lparr>e_transform = (\<lambda>r c. if r = c then 1 else 0)\<rparr>"
             and g = "\<lambda>name. LNil" and args = "[LLightUserdata 16]"]
  by (simp add: position_def translate_def)

text \<open>
  C5. On a call with the wrong number of arguments the three one-argument functions
  write their line to \<open>cerr\<close> and raise no script error, but they do not return a
  default value. With two or more arguments they declare one result without having
  pushed one, so the script receives the last argument it passed itself. With none, the
  declared result is not on the stack at all. (\<open>entity_translate\<close> declares no result;
  its case is part of C2.)
\<close>

theorem C5_getters_return_an_argument:
  "call_native env Frame_params_get_input_left (a # b # rest) g sc
     = Inr (Returned [last (b # rest)], g,
            sc\<lparr>cerr := cerr sc @ ''Function frame_params_get_input_left expected 1 argument but got ''
                   @ string_of_int (int (length (a # b # rest))) @ ''.'' @ endl\<rparr>)
   \<and> call_native env Frame_params_get_input_right (a # b # rest) g sc
     = Inr (Returned [last (b # rest)], g,
            sc\<lparr>cerr := cerr sc @ ''Function frame_params_get_input_right expected 1 argument but got ''
                   @ string_of_int (int (length (a # b # rest))) @ ''.'' @ endl\<rparr>)
   \<and> call_native env Component_get_entity (a # b # rest) g sc
     = Inr (Returned [last (b # rest)], g,
            sc\<lparr>cerr := cerr sc @ ''Function component_get_entity expected 1 argument but got ''
                   @ string_of_int (int (length (a # b # rest))) @ ''.'' @ endl\<rparr>)
   \<and> call_native env Frame_params_get_input_left [] g sc = Inl Lua_api_misuse
   \<and> call_native env Frame_params_get_input_right [] g sc = Inl Lua_api_misuse
   \<and> call_native env Component_get_entity [] g sc = Inl Lua_api_misuse"
proof -
  have l: "drop (Suc (length rest)) (a # b # rest) = [last (b # rest)]"
    by (induction rest arbitrary: a b) simp_all
  show ?thesis
    by (simp add: call_native_def lua_frame_params_get_input_left_def
        lua_frame_params_get_input_right_def lua_component_get_entity_def lua_gettop_def l
        del: drop_Suc_Cons last.simps)
qed

text \<open>
  C6. For a component that holds an interpreter state, one call of \<open>update\<close> makes
  exactly one protected call: the callee is the value the global \<open>update\<close> has in the
  state at that moment, the arguments are the handle of the component and the handle of
  the frame parameters, in this order. The call of \<open>update\<close> fails to return only if
  that one call does not return. When it returns normally, the component keeps the
  globals the script left, so the next frame looks \<open>update\<close> up in those.
\<close>

theorem C6_update_called_once_per_frame:
  assumes "deref_lua_component (scene w) this = Inr c" and "lc_lua c = Some L"
  shows "(ga_lua_component_update env this params w = None \<longleftrightarrow>
            call_value env (globals L ''update'') [LLightUserdata this, LLightUserdata params]
              (globals L) (scene w) = None)
       \<and> (\<forall>flt w'. ga_lua_component_update env this params w = Some (flt, w') \<longrightarrow>
            pcall_log w' = pcall_log w
              @ [(globals L ''update'', [LLightUserdata this, LLightUserdata params])])
       \<and> (\<forall>rs g' sc'.
            call_value env (globals L ''update'') [LLightUserdata this, LLightUserdata params]
              (globals L) (scene w) = Some (Inr (Returned rs, g', sc')) \<longrightarrow>
            (\<exists>w'. ga_lua_component_update env this params w = Some (None, w')
               \<and> deref_lua_component (scene w') this
                   = Inr (c\<lparr>lc_lua := Some \<lparr>globals = g', stack = stack L\<rparr>\<rparr>)))"
proof -
  have nz: "this \<noteq> 0" using assms(1) by (rule deref_component_nonnull)
  show ?thesis
    unfolding update_enabled [OF assms]
    by (auto simp add: Let_def deref_put_component [OF nz]
        split: option.splits sum.splits call_outcome.splits)
qed


theorem C6_witness:
  "\<exists>w1 w2 c. ga_lua_component_ctor example_env 48 16 ''move.lua'' example_world = Some (None, w1)
      \<and> ga_lua_component_update example_env 48 32 w1 = Some (None, w2)
      \<and> pcall_log w2 = pcall_log w1 @ [(LFunction 200, [LLightUserdata 48, LLightUserdata 32])]
      \<and> deref_lua_component (scene w2) 48 = Inr c"
proof -
  let ?L = "\<lparr>globals = ((\<lambda>name. LNil)(''update'' := LFunction 200))
                (''frame_params_get_input_left'' := LNative Frame_params_get_input_left,
                 ''frame_params_get_input_right'' := LNative Frame_params_get_input_right,
                 ''component_get_entity'' := LNative Component_get_entity,
                 ''entity_translate'' := LNative Entity_translate),
             stack = []\<rparr> :: int lua_State"
  let ?c = "\<lparr>lc_entity = 16, lc_lua = Some ?L\<rparr>"
  let ?w1 = "put_component 48 ?c
               \<lparr>scene = example_scene, lua_open = lua_open example_world + 1,
                pcall_log = pcall_log example_world @ [(LFunction 100, [])]\<rparr>"
  have ctor: "ga_lua_component_ctor example_env 48 16 ''move.lua'' example_world = Some (None, ?w1)"
    using ctor_chunk_ran [where env = example_env and path = "''move.lua''" and w = example_world
        and chunk = "LFunction 100" and out = "Returned []"
        and ?g1.0 = "(\<lambda>name. LNil)(''update'' := LFunction 200)" and ?sc1.0 = example_scene
        and this = 48 and ent = 16]
    by (simp add: example_call_move)
  have d: "deref_lua_component (scene ?w1) 48 = Inr ?c"
    by (rule deref_put_component) simp
  have l: "lc_lua ?c = Some ?L" by simp
  have u: "globals ?L ''update'' = LFunction 200" by simp
  note t = C6_update_called_once_per_frame [OF d l, where env = example_env and params = 32]
  from t have "\<exists>w'. ga_lua_component_update example_env 48 32 ?w1 = Some (None, w')
               \<and> deref_lua_component (scene w') 48
                   = Inr (?c\<lparr>lc_lua := Some \<lparr>globals = globals ?L, stack = stack ?L\<rparr>\<rparr>)"
    unfolding u by (simp only: example_call_update)
  then obtain w2 where
    r: "ga_lua_component_update example_env 48 32 ?w1 = Some (None, w2)" and
    d2: "deref_lua_component (scene w2) 48
           = Inr (?c\<lparr>lc_lua := Some \<lparr>globals = globals ?L, stack = stack ?L\<rparr>\<rparr>)"
    by blast
  from t r have "pcall_log w2 = pcall_log ?w1 @ [(LFunction 200, [LLightUserdata 48, LLightUserdata 32])]"
    unfolding u by blast
  with ctor r d2 show ?thesis by blast
qed

text \<open>
  C7. Called with one argument, the handle of a frame-parameters record, the function
  \<open>frame_params_get_input_left\<close> returns to the script the boolean
  \<open>(_button_mask & k_button_j) != 0\<close> and \<open>frame_params_get_input_right\<close> the boolean
  \<open>(_button_mask & k_button_l) != 0\<close>, and neither changes the scene. When the button
  constant is a single bit, \<open>2 ^ i\<close>, the boolean is true exactly if bit \<open>i\<close> of the mask
  is set.
\<close>

theorem C7_input_left_right:
  assumes "deref_frame_params sc p = Inr fp"
  shows "call_native env Frame_params_get_input_left [LLightUserdata p] g sc
           = Inr (Returned [LBoolean (fp_button_mask fp AND k_button_j env \<noteq> 0)], g, sc)
       \<and> call_native env Frame_params_get_input_right [LLightUserdata p] g sc
           = Inr (Returned [LBoolean (fp_button_mask fp AND k_button_l env \<noteq> 0)], g, sc)
       \<and> (\<forall>i. k_button_j env = 2 ^ i \<longrightarrow>
             call_native env Frame_params_get_input_left [LLightUserdata p] g sc
               = Inr (Returned [LBoolean (bit (fp_button_mask fp) i)], g, sc))
       \<and> (\<forall>i. k_button_l env = 2 ^ i \<longrightarrow>
             call_native env Frame_params_get_input_right [LLightUserdata p] g sc
               = Inr (Returned [LBoolean (bit (fp_button_mask fp) i)], g, sc))"
  using assms
  by (simp add: call_native_def lua_frame_params_get_input_left_def
      lua_frame_params_get_input_right_def lua_gettop_def lua_pushboolean_def lua_push_def
      bit_mask_test)

theorem C7_witness:
  "call_native example_env Frame_params_get_input_left [LLightUserdata 32] (\<lambda>name. LNil) example_scene
     = Inr (Returned [LBoolean True], (\<lambda>name. LNil), example_scene)
   \<and> call_native example_env Frame_params_get_input_right [LLightUserdata 32] (\<lambda>name. LNil) example_scene
     = Inr (Returned [LBoolean False], (\<lambda>name. LNil), example_scene)"
proof -
  note t = C7_input_left_right [OF example_deref(2), where env = example_env and g = "\<lambda>name. LNil"]
  from t [THEN conjunct2, THEN conjunct2, THEN conjunct1, rule_format, of 6]
  have left: "call_native example_env Frame_params_get_input_left [LLightUserdata 32]
                   (\<lambda>name. LNil) example_scene
                 = Inr (Returned [LBoolean True], (\<lambda>name. LNil), example_scene)"
    by (simp add: bit_0)
  from t [THEN conjunct2, THEN conjunct2, THEN conjunct2, rule_format, of 8]
  have right: "call_native example_env Frame_params_get_input_right [LLightUserdata 32]
                   (\<lambda>name. LNil) example_scene
                 = Inr (Returned [LBoolean False], (\<lambda>name. LNil), example_scene)"
    by (simp add: bit_0)
  from left right show ?thesis by simp
qed



section \<open>Properties of mesh building\<close>

subsection \<open>Checked reads\<close>

lemma take_three: "3 \<le> length xs \<Longrightarrow> take 3 xs = [xs ! 0, xs ! 1, xs ! 2]"
proof -
  assume "3 \<le> length xs"
  then obtain a b c rest where "xs = a # b # c # rest"
    by (cases xs; cases "tl xs"; cases "tl (tl xs)") auto
  then show ?thesis by simp
qed

lemma nth_checked_Inr: "nth_checked xs i = Inr v \<longleftrightarrow> i < length xs \<and> v = xs ! i"
  by (auto simp add: nth_checked_def)

lemma nth_checked_Inl: "nth_checked xs i = Inl flt \<longleftrightarrow> length xs \<le> i \<and> flt = Out_of_bounds"
  by (auto simp add: nth_checked_def)

lemma nth_checked_three:
  assumes "3 \<le> length xs"
  shows "nth_checked xs 0 = Inr (xs ! 0)" and "nth_checked xs (Suc 0) = Inr (xs ! 1)"
    and "nth_checked xs 2 = Inr (xs ! 2)"
proof -
  from assms have "0 < length xs" and "Suc 0 < length xs" and "2 < length xs" by arith+
  then show "nth_checked xs 0 = Inr (xs ! 0)" and "nth_checked xs (Suc 0) = Inr (xs ! 1)"
    and "nth_checked xs 2 = Inr (xs ! 2)"
    unfolding nth_checked_def by simp_all
qed

lemma nth_checked_short:
  "length xs < 3 \<Longrightarrow> nth_checked xs 2 = Inl Out_of_bounds"
  "length xs < 2 \<Longrightarrow> nth_checked xs (Suc 0) = Inl Out_of_bounds"
  by (simp_all add: nth_checked_def)

subsection \<open>The index loop\<close>

lemma load_indices_Inr:
  "load_indices env faces (ia, out) = Inr (ia', out') \<Longrightarrow>
     ia' = ia @ concat (map (\<lambda>face. map (index_cast env) (take 3 (mIndices face))) faces)
   \<and> out' = out @ concat (map (\<lambda>face. if length (mIndices face) > 3
                then ''Face with more than 3 verts: mNumIndices=''
                       @ string_of_nat (length (mIndices face)) @ endl
                else []) faces)
   \<and> (\<forall>face \<in> set faces. 3 \<le> length (mIndices face))"
proof (induction faces arbitrary: ia out)
  case Nil
  then show ?case by simp
next
  case (Cons face rest)
  from Cons.prems obtain i0 i1 i2 where
    r0: "nth_checked (mIndices face) 0 = Inr i0" and
    r1: "nth_checked (mIndices face) 1 = Inr i1" and
    r2: "nth_checked (mIndices face) 2 = Inr i2"
    by (auto split: sum.splits)
  from r2 have len: "3 \<le> length (mIndices face)" by (simp add: nth_checked_Inr)
  from r0 r1 r2 have t: "take 3 (mIndices face) = [i0, i1, i2]"
    using take_three [OF len] by (simp add: nth_checked_Inr)
  from Cons.prems r0 r1 r2 have rec:
    "load_indices env rest
       (ia @ [index_cast env i0] @ [index_cast env i1] @ [index_cast env i2],
        if length (mIndices face) > 3
        then out @ ''Face with more than 3 verts: mNumIndices=''
                 @ string_of_nat (length (mIndices face)) @ endl
        else out) = Inr (ia', out')"
    by simp
  from Cons.IH [OF rec] t len show ?case by (simp del: append_Cons)
qed

lemma load_indices_total:
  "\<forall>face \<in> set faces. 3 \<le> length (mIndices face) \<Longrightarrow> \<exists>r. load_indices env faces acc = Inr r"
proof (induction faces arbitrary: acc)
  case Nil
  then show ?case by (cases acc) simp
next
  case (Cons face rest)
  then have len: "3 \<le> length (mIndices face)" by simp
  obtain ia out where acc: "acc = (ia, out)" by (cases acc)
  from Cons have "\<And>acc'. \<exists>r. load_indices env rest acc' = Inr r" by simp
  then show ?case using len by (simp add: acc nth_checked_three)
qed

lemma load_indices_Inl:
  "load_indices env faces acc = Inl flt \<Longrightarrow>
     flt = Out_of_bounds \<and> (\<exists>face \<in> set faces. length (mIndices face) < 3)"
proof (induction faces arbitrary: acc)
  case Nil
  then show ?case by (cases acc) simp
next
  case (Cons face rest)
  obtain ia out where acc: "acc = (ia, out)" by (cases acc)
  show ?case
  proof (cases "3 \<le> length (mIndices face)")
    case True
    with Cons.prems acc have "\<exists>acc'. load_indices env rest acc' = Inl flt"
      by (auto simp add: nth_checked_three)
    with Cons.IH show ?thesis by auto
  next
    case False
    then have "length (mIndices face) < 3" by simp
    with Cons.prems acc show ?thesis
      by (auto simp add: nth_checked_short nth_checked_Inl split: sum.splits)
  qed
qed

lemma length_concat_take3:
  "\<forall>face \<in> set faces. 3 \<le> length (mIndices face) \<Longrightarrow>
   length (concat (map (\<lambda>face. map f (take 3 (mIndices face))) faces)) = 3 * length faces"
  by (induction faces) simp_all

lemma concat_take3_triangles:
  "\<forall>face \<in> set faces. length (mIndices face) = 3 \<Longrightarrow>
   concat (map (\<lambda>face. map f (take 3 (mIndices face))) faces) = map f (concat (map mIndices faces))"
  by (induction faces) simp_all

subsection \<open>The vertex loop\<close>

lemma load_vertex_total:
  assumes "i < length (mVertices mesh)"
    and "vf AND k_vertex_attribute_uv env \<noteq> 0 \<longrightarrow>
           (\<exists>tcs. mTextureCoords0 mesh = Some tcs \<and> length (mVertices mesh) \<le> length tcs)"
    and "vf AND k_vertex_attribute_normal env \<noteq> 0 \<longrightarrow>
           (\<exists>ns. mNormals mesh = Some ns \<and> length (mVertices mesh) \<le> length ns)"
  shows "\<exists>v. load_vertex env vf mesh i = Inr v"
  using assms by (auto simp add: load_vertex_def nth_checked_def Let_def)

lemma load_vertices_total:
  assumes "\<forall>i \<in> set idxs. i < length (mVertices mesh)"
    and "vf AND k_vertex_attribute_uv env \<noteq> 0 \<longrightarrow>
           (\<exists>tcs. mTextureCoords0 mesh = Some tcs \<and> length (mVertices mesh) \<le> length tcs)"
    and "vf AND k_vertex_attribute_normal env \<noteq> 0 \<longrightarrow>
           (\<exists>ns. mNormals mesh = Some ns \<and> length (mVertices mesh) \<le> length ns)"
  shows "\<exists>r. load_vertices env vf mesh idxs acc = Inr r"
  using assms(1)
proof (induction idxs arbitrary: acc)
  case Nil
  show ?case by simp
next
  case (Cons i rest)
  then have "i < length (mVertices mesh)" by simp
  from load_vertex_total [OF this assms(2,3)] obtain v where "load_vertex env vf mesh i = Inr v"
    by blast
  moreover from Cons have "\<exists>r. load_vertices env vf mesh rest (acc @ [v]) = Inr r" by simp
  ultimately show ?case by simp
qed

subsection \<open>create_from_aiMesh and make_buffers\<close>

lemma load_material_facts:
  "load_material env ai_material sc = (mat, sc1) \<Longrightarrow>
     mat = Suc (alloc_mark sc) \<and> cout sc1 = cout sc \<and> cerr sc1 = cerr sc
   \<and> gl sc1 = gl_issue env (Material_init mat) (gl sc)
   \<and> heap sc1 = (heap sc)(mat \<mapsto> Obj_material
        (case diffuse_textures ai_material of
           diffuse_texture_path # _ \<Rightarrow> Ga_lit_texture_material diffuse_texture_path
         | [] \<Rightarrow> (case color_diffuse ai_material of
                    Some (r, g, b) \<Rightarrow> Ga_lit_material r g b
                  | None \<Rightarrow> Ga_lit_material 0 0 0)))"
  by (auto simp add: load_material_def new_object_def material_init_def Let_def
      split: list.splits option.splits prod.splits)

lemma create_from_aiMesh_Inr:
  assumes "create_from_aiMesh env m mesh ai_scene sc = Inr (m1, sc1)"
  shows "m_index_array m1 = m_index_array m
           @ concat (map (\<lambda>face. map (index_cast env) (take 3 (mIndices face))) (mFaces mesh))"
    and "cout sc1 = cout sc @ concat (map (\<lambda>face. if length (mIndices face) > 3
                then ''Face with more than 3 verts: mNumIndices=''
                       @ string_of_nat (length (mIndices face)) @ endl
                else []) (mFaces mesh))"
    and "\<forall>face \<in> set (mFaces mesh). 3 \<le> length (mIndices face)"
    and "mMaterialIndex mesh < length (mMaterials ai_scene)"
    and "m_material m1 = Suc (alloc_mark sc)"
    and "heap sc1 = (heap sc)(m_material m1 \<mapsto> Obj_material
        (case diffuse_textures (mMaterials ai_scene ! mMaterialIndex mesh) of
           diffuse_texture_path # _ \<Rightarrow> Ga_lit_texture_material diffuse_texture_path
         | [] \<Rightarrow> (case color_diffuse (mMaterials ai_scene ! mMaterialIndex mesh) of
                    Some (r, g, b) \<Rightarrow> Ga_lit_material r g b
                  | None \<Rightarrow> Ga_lit_material 0 0 0)))"
    and "gl sc1 = gl_issue env (Material_init (m_material m1)) (gl sc)"
proof -
  from assms obtain va ia out ai_material mat where
    li: "load_indices env (mFaces mesh) (m_index_array m, cout sc) = Inr (ia, out)" and
    am: "nth_checked (mMaterials ai_scene) (mMaterialIndex mesh) = Inr ai_material" and
    lm: "load_material env ai_material (sc\<lparr>cout := out\<rparr>) = (mat, sc1)" and
    ia: "m_index_array m1 = ia" and mm: "m_material m1 = mat"
    unfolding create_from_aiMesh_def Let_def
    by (auto split: sum.splits prod.splits)
  from am have a: "mMaterialIndex mesh < length (mMaterials ai_scene)"
    and b: "ai_material = mMaterials ai_scene ! mMaterialIndex mesh"
    by (simp_all add: nth_checked_Inr)
  note f = load_indices_Inr [OF li] load_material_facts [OF lm [unfolded b]]
  show "m_index_array m1 = m_index_array m
           @ concat (map (\<lambda>face. map (index_cast env) (take 3 (mIndices face))) (mFaces mesh))"
    using f ia by simp
  show "cout sc1 = cout sc @ concat (map (\<lambda>face. if length (mIndices face) > 3
                then ''Face with more than 3 verts: mNumIndices=''
                       @ string_of_nat (length (mIndices face)) @ endl
                else []) (mFaces mesh))"
    using f by simp
  show "\<forall>face \<in> set (mFaces mesh). 3 \<le> length (mIndices face)" using f by simp
  show "mMaterialIndex mesh < length (mMaterials ai_scene)" by (rule a)
  show "m_material m1 = Suc (alloc_mark sc)" using f mm by simp
  show "heap sc1 = (heap sc)(m_material m1 \<mapsto> Obj_material
        (case diffuse_textures (mMaterials ai_scene ! mMaterialIndex mesh) of
           diffuse_texture_path # _ \<Rightarrow> Ga_lit_texture_material diffuse_texture_path
         | [] \<Rightarrow> (case color_diffuse (mMaterials ai_scene ! mMaterialIndex mesh) of
                    Some (r, g, b) \<Rightarrow> Ga_lit_material r g b
                  | None \<Rightarrow> Ga_lit_material 0 0 0)))"
    using f mm by simp
  show "gl sc1 = gl_issue env (Material_init (m_material m1)) (gl sc)"
    using f mm by simp
qed

lemma create_from_aiMesh_total:
  assumes "\<forall>face \<in> set (mFaces mesh). 3 \<le> length (mIndices face)"
    and "mMaterialIndex mesh < length (mMaterials ai_scene)"
    and "vertex_format_of env mesh AND k_vertex_attribute_uv env \<noteq> 0 \<longrightarrow>
           (\<exists>tcs. mTextureCoords0 mesh = Some tcs \<and> length (mVertices mesh) \<le> length tcs)"
    and "vertex_format_of env mesh AND k_vertex_attribute_normal env \<noteq> 0 \<longrightarrow>
           (\<exists>ns. mNormals mesh = Some ns \<and> length (mVertices mesh) \<le> length ns)"
  shows "\<exists>m1 sc1. create_from_aiMesh env m mesh ai_scene sc = Inr (m1, sc1)"
proof -
  have "\<forall>i \<in> set [0..<length (mVertices mesh)]. i < length (mVertices mesh)" by simp
  from load_vertices_total [OF this assms(3,4)]
  obtain va where va: "load_vertices env (vertex_format_of env mesh) mesh
      [0..<length (mVertices mesh)] (m_vertex_array m) = Inr va"
    by blast
  from load_indices_total [OF assms(1)]
  obtain ia out where li: "load_indices env (mFaces mesh) (m_index_array m, cout sc) = Inr (ia, out)"
    by (metis surj_pair)
  from assms(2) have am: "nth_checked (mMaterials ai_scene) (mMaterialIndex mesh)
      = Inr (mMaterials ai_scene ! mMaterialIndex mesh)"
    by (simp add: nth_checked_def)
  show ?thesis
    unfolding create_from_aiMesh_def Let_def
    by (simp add: va li am split: prod.splits)
qed

lemma gl_issue_quiet:
  "gl_error g = GL_NO_ERROR \<Longrightarrow> \<forall>g cmd. gl_driver env g cmd = GL_NO_ERROR \<Longrightarrow>
   gl_error (gl_issue env cmd g) = GL_NO_ERROR"
  by (simp add: gl_issue_def)

lemma attrib_quiet:
  "gl_error g = GL_NO_ERROR \<Longrightarrow> \<forall>g cmd. gl_driver env g cmd = GL_NO_ERROR \<Longrightarrow>
   gl_error (attrib env index n offset g) = GL_NO_ERROR"
  by (simp add: attrib_def gl_issue_quiet)

lemma make_buffers_total:
  assumes "gl_error (gl sc) = GL_NO_ERROR" and "\<forall>g cmd. gl_driver env g cmd = GL_NO_ERROR"
  shows "\<exists>m2 sc2. make_buffers env m sc = Inr (m2, sc2)"
proof -
  have q: "\<And>g cmd. gl_error g = GL_NO_ERROR \<Longrightarrow> gl_error (gl_issue env cmd g) = GL_NO_ERROR"
    using assms(2) by (simp add: gl_issue_quiet)
  have a: "\<And>g index n offset. gl_error g = GL_NO_ERROR \<Longrightarrow>
             gl_error (attrib env index n offset g) = GL_NO_ERROR"
    using assms(2) by (simp add: attrib_quiet)
  show ?thesis
    unfolding make_buffers_def Let_def glGenVertexArrays_def glGenBuffers2_def glGetError_def
    by (simp add: q a assms(1))
qed

lemma make_buffers_Inr:
  assumes "make_buffers env m sc = Inr (m2, sc2)"
  shows "m_index_count m2 = length (m_index_array m)"
    and "m_index_array m2 = m_index_array m"
    and "m_material m2 = m_material m"
    and "heap sc2 = heap sc" and "cout sc2 = cout sc"
  using assms
  unfolding make_buffers_def Let_def
  by (auto split: prod.splits if_splits)

lemma build_mesh_total:
  assumes "\<forall>face \<in> set (mFaces mesh). 3 \<le> length (mIndices face)"
    and "mMaterialIndex mesh < length (mMaterials ai_scene)"
    and "vertex_format_of env mesh AND k_vertex_attribute_uv env \<noteq> 0 \<longrightarrow>
           (\<exists>tcs. mTextureCoords0 mesh = Some tcs \<and> length (mVertices mesh) \<le> length tcs)"
    and "vertex_format_of env mesh AND k_vertex_attribute_normal env \<noteq> 0 \<longrightarrow>
           (\<exists>ns. mNormals mesh = Some ns \<and> length (mVertices mesh) \<le> length ns)"
    and "gl_error (gl sc) = GL_NO_ERROR" and "\<forall>g cmd. gl_driver env g cmd = GL_NO_ERROR"
  shows "\<exists>m1 sc1 m2 sc2. create_from_aiMesh env m mesh ai_scene sc = Inr (m1, sc1)
           \<and> make_buffers env m1 sc1 = Inr (m2, sc2)"
proof -
  from create_from_aiMesh_total [OF assms(1-4)]
  obtain m1 sc1 where c: "create_from_aiMesh env m mesh ai_scene sc = Inr (m1, sc1)" by blast
  from create_from_aiMesh_Inr(7) [OF c] assms(5,6)
  have "gl_error (gl sc1) = GL_NO_ERROR" by (simp add: gl_issue_quiet)
  from make_buffers_total [OF this assms(6)] c show ?thesis by blast
qed

lemma example_meshes_wellformed:
  "\<forall>face \<in> set (mFaces example_quad_mesh). 3 \<le> length (mIndices face)"
  "\<forall>face \<in> set (mFaces example_tri_mesh). length (mIndices face) = 3"
  "mMaterialIndex example_quad_mesh < length (mMaterials example_aiScene)"
  "mMaterialIndex example_tri_mesh < length (mMaterials example_aiScene)"
  "vertex_format_of example_env example_quad_mesh = 1"
  "vertex_format_of example_env example_tri_mesh = 1"
  "gl_error (gl example_scene) = GL_NO_ERROR"
  "\<forall>g cmd. gl_driver example_env g cmd = GL_NO_ERROR"
  by (simp_all add: example_quad_mesh_def example_tri_mesh_def example_aiScene_def
      vertex_format_of_def HasTextureCoords0_def HasNormals_def HasVertexColors0_def HasBones_def
      example_scene_def GL_NO_ERROR_def)


section \<open>The claims about meshes and the model component\<close>

text \<open>
  C3. For a mesh made by the constructor, filled by \<open>create_from_aiMesh\<close> and realised
  by \<open>make_buffers\<close>, the index count is three times the number of source faces, hence
  divisible by 3. Every face contributes its first three indices, in order, converted to
  the element type of the index array; and the output holds, face by face, one line
  for each face with more than three indices and nothing else, so the result is a
  function of the faces alone.
\<close>

theorem C3_index_count_multiple_of_three:
  assumes "create_from_aiMesh env (ga_mesh_ctor raw) mesh ai_scene sc = Inr (m1, sc1)"
    and "make_buffers env m1 sc1 = Inr (m2, sc2)"
  shows "m_index_count m2 mod 3 = 0
       \<and> m_index_count m2 = 3 * length (mFaces mesh)
       \<and> m_index_array m2
           = concat (map (\<lambda>face. map (index_cast env) (take 3 (mIndices face))) (mFaces mesh))
       \<and> cout sc2 = cout sc @ concat (map (\<lambda>face. if length (mIndices face) > 3
                then ''Face with more than 3 verts: mNumIndices=''
                       @ string_of_nat (length (mIndices face)) @ endl
                else []) (mFaces mesh))"
proof -
  note c = create_from_aiMesh_Inr [OF assms(1)]
  note b = make_buffers_Inr [OF assms(2)]
  have ia: "m_index_array m2
      = concat (map (\<lambda>face. map (index_cast env) (take 3 (mIndices face))) (mFaces mesh))"
    using c(1) b(2) by (simp add: ga_mesh_ctor_def)
  have "length (m_index_array m2) = 3 * length (mFaces mesh)"
    unfolding ia by (rule length_concat_take3 [OF c(3)])
  then have n: "m_index_count m2 = 3 * length (mFaces mesh)"
    using b(1) b(2) by simp
  show ?thesis using ia n b(5) c(2) by simp
qed

theorem C3_witness:
  "\<exists>m1 sc1 m2 sc2.
      create_from_aiMesh example_env (ga_mesh_ctor (raw_mesh example_env)) example_quad_mesh
          example_aiScene example_scene = Inr (m1, sc1)
    \<and> make_buffers example_env m1 sc1 = Inr (m2, sc2)
    \<and> m_index_count m2 mod 3 = 0
    \<and> m_index_count m2 = 6
    \<and> m_index_array m2 = [0, 1, 2, 0, 1, 2]
    \<and> cout sc2 = ''Face with more than 3 verts: mNumIndices=4'' @ endl"
proof -
  from build_mesh_total [of example_quad_mesh example_aiScene example_env example_scene
      "ga_mesh_ctor (raw_mesh example_env)"]
  obtain m1 sc1 m2 sc2 where
    c: "create_from_aiMesh example_env (ga_mesh_ctor (raw_mesh example_env)) example_quad_mesh
          example_aiScene example_scene = Inr (m1, sc1)" and
    b: "make_buffers example_env m1 sc1 = Inr (m2, sc2)"
    using example_meshes_wellformed by (auto simp add: example_env_def)
  have four: "string_of_nat 4 = ''4''" by simp
  from C3_index_count_multiple_of_three [OF c b]
  have "m_index_count m2 mod 3 = 0
    \<and> m_index_count m2 = 6
    \<and> m_index_array m2 = [0, 1, 2, 0, 1, 2]
    \<and> cout sc2 = ''Face with more than 3 verts: mNumIndices=4'' @ endl"
    by (simp add: example_quad_mesh_def example_scene_def four)
  with c b show ?thesis
    by (intro exI [of _ m1] exI [of _ sc1] exI [of _ m2] exI [of _ sc2]) simp
qed

text \<open>
  C4. For a source mesh all of whose faces have three indices, building the mesh
  (constructor, \<open>create_from_aiMesh\<close>, \<open>make_buffers\<close>) and assembling its draw call
  gives a descriptor whose index count is the number of faces times 3, whose draw mode
  is \<open>GL_TRIANGLES\<close> and whose material pointer is the mesh's, the one allocated by
  \<open>create_from_aiMesh\<close>: it points at a textured material with the first diffuse
  texture path if the source material has a diffuse texture, and at an untextured one
  with the source's diffuse colour otherwise. The index array then holds all indices of
  all faces, in order.
\<close>

theorem C4_drawcall_roundtrip:
  assumes "\<forall>face \<in> set (mFaces mesh). length (mIndices face) = 3"
    and "create_from_aiMesh env (ga_mesh_ctor raw) mesh ai_scene sc = Inr (m1, sc1)"
    and "make_buffers env m1 sc1 = Inr (m2, sc2)"
  shows "dc_index_count (assemble_drawcall m2 draw) = length (mFaces mesh) * 3
       \<and> dc_draw_mode (assemble_drawcall m2 draw) = GL_TRIANGLES
       \<and> dc_material (assemble_drawcall m2 draw) = m_material m2
       \<and> m_material m2 = m_material m1
       \<and> heap sc2 (m_material m2) = Some (Obj_material
           (case diffuse_textures (mMaterials ai_scene ! mMaterialIndex mesh) of
              diffuse_texture_path # _ \<Rightarrow> Ga_lit_texture_material diffuse_texture_path
            | [] \<Rightarrow> (case color_diffuse (mMaterials ai_scene ! mMaterialIndex mesh) of
                       Some (r, g, b) \<Rightarrow> Ga_lit_material r g b
                     | None \<Rightarrow> Ga_lit_material 0 0 0)))
       \<and> m_index_array m2 = map (index_cast env) (concat (map mIndices (mFaces mesh)))"
proof -
  note c = create_from_aiMesh_Inr [OF assms(2)]
  note b = make_buffers_Inr [OF assms(3)]
  have ia: "m_index_array m1
      = concat (map (\<lambda>face. map (index_cast env) (take 3 (mIndices face))) (mFaces mesh))"
    using c(1) by (simp add: ga_mesh_ctor_def)
  then have "length (m_index_array m1) = 3 * length (mFaces mesh)"
    using length_concat_take3 [OF c(3)] by simp
  then have n: "m_index_count m2 = 3 * length (mFaces mesh)"
    using b(1) by simp
  have h: "heap sc2 (m_material m2) = Some (Obj_material
           (case diffuse_textures (mMaterials ai_scene ! mMaterialIndex mesh) of
              diffuse_texture_path # _ \<Rightarrow> Ga_lit_texture_material diffuse_texture_path
            | [] \<Rightarrow> (case color_diffuse (mMaterials ai_scene ! mMaterialIndex mesh) of
                       Some (r, g, b) \<Rightarrow> Ga_lit_material r g b
                     | None \<Rightarrow> Ga_lit_material 0 0 0)))"
    using b(3) b(4) c(6) by simp
  have all: "m_index_array m2 = map (index_cast env) (concat (map mIndices (mFaces mesh)))"
    using ia b(2) concat_take3_triangles [OF assms(1)] by simp
  show ?thesis using n h b(3) all by (simp add: assemble_drawcall_def)
qed

theorem C4_witness:
  "\<exists>m1 sc1 m2 sc2.
      create_from_aiMesh example_env (ga_mesh_ctor (raw_mesh example_env)) example_tri_mesh
          example_aiScene example_scene = Inr (m1, sc1)
    \<and> make_buffers example_env m1 sc1 = Inr (m2, sc2)
    \<and> dc_index_count (assemble_drawcall m2
          \<lparr>dc_vao = 0, dc_index_count = 0, dc_draw_mode = 0, dc_material = 0,
           dc_transform = (\<lambda>r c. 0)\<rparr>) = 6
    \<and> dc_draw_mode (assemble_drawcall m2
          \<lparr>dc_vao = 0, dc_index_count = 0, dc_draw_mode = 0, dc_material = 0,
           dc_transform = (\<lambda>r c. 0)\<rparr>) = 4
    \<and> heap sc2 (dc_material (assemble_drawcall m2
          \<lparr>dc_vao = 0, dc_index_count = 0, dc_draw_mode = 0, dc_material = 0,
           dc_transform = (\<lambda>r c. 0)\<rparr>)) = Some (Obj_material (Ga_lit_material 1 0 0))
    \<and> m_index_array m2 = [0, 1, 2, 0, 2, 3]"
proof -
  have three: "\<forall>face \<in> set (mFaces example_tri_mesh). 3 \<le> length (mIndices face)"
    using example_meshes_wellformed(2) by simp
  from build_mesh_total [of example_tri_mesh example_aiScene example_env example_scene
      "ga_mesh_ctor (raw_mesh example_env)", OF three]
  obtain m1 sc1 m2 sc2 where
    c: "create_from_aiMesh example_env (ga_mesh_ctor (raw_mesh example_env)) example_tri_mesh
          example_aiScene example_scene = Inr (m1, sc1)" and
    b: "make_buffers example_env m1 sc1 = Inr (m2, sc2)"
    using example_meshes_wellformed by (auto simp add: example_env_def)
  from C4_drawcall_roundtrip [OF example_meshes_wellformed(2) c b,
      of "\<lparr>dc_vao = 0, dc_index_count = 0, dc_draw_mode = 0, dc_material = 0,
           dc_transform = (\<lambda>r c. 0)\<rparr>"]
  have "dc_index_count (assemble_drawcall m2
          \<lparr>dc_vao = 0, dc_index_count = 0, dc_draw_mode = 0, dc_material = 0,
           dc_transform = (\<lambda>r c. 0)\<rparr>) = 6
    \<and> dc_draw_mode (assemble_drawcall m2
          \<lparr>dc_vao = 0, dc_index_count = 0, dc_draw_mode = 0, dc_material = 0,
           dc_transform = (\<lambda>r c. 0)\<rparr>) = 4
    \<and> heap sc2 (dc_material (assemble_drawcall m2
          \<lparr>dc_vao = 0, dc_index_count = 0, dc_draw_mode = 0, dc_material = 0,
           dc_transform = (\<lambda>r c. 0)\<rparr>)) = Some (Obj_material (Ga_lit_material 1 0 0))
    \<and> m_index_array m2 = [0, 1, 2, 0, 2, 3]"
    by (auto simp add: example_tri_mesh_def example_aiScene_def example_material_def GL_TRIANGLES_def)
  with c b show ?thesis
    by (intro exI [of _ m1] exI [of _ sc1] exI [of _ m2] exI [of _ sc2]) simp
qed

text \<open>
  C8. When the importer returns no scene for the model file, the constructor returns
  (no fault): the component has no meshes, its root is a new node without meshes or
  children, and one line has gone to \<open>cout\<close>. For such a component, with the entity and
  the frame parameters valid, every \<open>update\<close> returns without a fault, adds no draw
  call, leaves the scene as it was, and leaves the component empty as before, with only
  the root's world transform recomputed.
\<close>

theorem C8_failed_import_leaves_empty_component:
  assumes "ReadFile env (g_root_path env @ model_file) = None"
  shows "ga_model_component_ctor env ent model_file sc
           = Inr (\<lparr>mc_entity = ent, mc_scene = None, mc_meshes = [],
                   mc_root = Ga_node [] (nd_transform (raw_node env)) (nd_world (raw_node env)) [] []\<rparr>,
                  sc\<lparr>cout := cout sc @ ''error: couldn't load obj'' @ endl\<rparr>)
       \<and> (\<forall>t w params fp e sc'.
             deref_frame_params sc' params = Inr fp \<and> deref_entity sc' ent = Inr e \<longrightarrow>
             ga_model_component_update env
                 \<lparr>mc_entity = ent, mc_scene = None, mc_meshes = [], mc_root = Ga_node [] t w [] []\<rparr>
                 params sc'
               = Inr (\<lparr>mc_entity = ent, mc_scene = None, mc_meshes = [],
                       mc_root = Ga_node [] t (mat_mul env t (get_transform e)) [] []\<rparr>, sc'))"
  using assms
  by (simp add: ga_model_component_ctor_def ga_node_ctor_def ga_model_component_update_def Let_def)

theorem C8_witness:
  "ga_model_component_ctor example_env 16 ''missing.obj'' example_scene
     = Inr (\<lparr>mc_entity = 16, mc_scene = None, mc_meshes = [],
             mc_root = Ga_node [] (\<lambda>r c. 0) (\<lambda>r c. 0) [] []\<rparr>,
            example_scene\<lparr>cout := ''error: couldn't load obj'' @ endl\<rparr>)
   \<and> (\<exists>w. ga_model_component_update example_env
          \<lparr>mc_entity = 16, mc_scene = None, mc_meshes = [],
           mc_root = Ga_node [] (\<lambda>r c. 0) (\<lambda>r c. 0) [] []\<rparr>
          32 (example_scene\<lparr>cout := ''error: couldn't load obj'' @ endl\<rparr>)
        = Inr (\<lparr>mc_entity = 16, mc_scene = None, mc_meshes = [], mc_root = Ga_node [] (\<lambda>r c. 0) w [] []\<rparr>,
               example_scene\<lparr>cout := ''error: couldn't load obj'' @ endl\<rparr>))"
proof -
  have r: "ReadFile example_env (g_root_path example_env @ ''missing.obj'') = None" by simp
  have n: "raw_node example_env = Ga_node [] (\<lambda>r c. 0) (\<lambda>r c. 0) [] []"
    by (simp add: example_env_def)
  have c: "cout example_scene = []" by (simp add: example_scene_def)
  note t = C8_failed_import_leaves_empty_component [OF r, of 16 example_scene]
  have d: "deref_frame_params (example_scene\<lparr>cout := ''error: couldn't load obj'' @ endl\<rparr>) 32
             = Inr \<lparr>fp_delta_time = 16, fp_button_mask = 64, fp_static_drawcalls = []\<rparr>
         \<and> deref_entity (example_scene\<lparr>cout := ''error: couldn't load obj'' @ endl\<rparr>) 16
             = Inr \<lparr>e_transform = (\<lambda>r c. if r = c then 1 else 0)\<rparr>"
    by (simp add: deref_entity_def deref_frame_params_def deref_def example_scene_def)
  from t [THEN conjunct2, rule_format, OF d] t [THEN conjunct1]
  show ?thesis by (simp add: n c)
qed

text \<open>
  C10. The index loop reads slots 0, 1 and 2 of every face without looking at the
  face's index count. So it runs to its end exactly if every face has at least three
  indices, and it ends in an out-of-bounds read exactly if some face has fewer. For a
  face with fewer than three indices the read of slot 2 is out of bounds, the read of
  slot 1 is too when the face has fewer than two, and the loop fails at that face.
\<close>

theorem C10_index_loading_needs_three_indices:
  "((\<exists>r. load_indices env faces acc = Inr r) \<longleftrightarrow> (\<forall>face \<in> set faces. 3 \<le> length (mIndices face)))
   \<and> ((\<exists>face \<in> set faces. length (mIndices face) < 3) \<longleftrightarrow> load_indices env faces acc = Inl Out_of_bounds)
   \<and> (\<forall>face. length (mIndices face) < 3 \<longrightarrow>
         nth_checked (mIndices face) 2 = Inl Out_of_bounds
       \<and> (length (mIndices face) < 2 \<longrightarrow> nth_checked (mIndices face) 1 = Inl Out_of_bounds)
       \<and> (\<forall>rest. load_indices env (face # rest) acc = Inl Out_of_bounds))"
proof -
  obtain ia out where acc: "acc = (ia, out)" by (cases acc)
  have a: "(\<exists>r. load_indices env faces acc = Inr r) \<longleftrightarrow> (\<forall>face \<in> set faces. 3 \<le> length (mIndices face))"
  proof
    assume "\<exists>r. load_indices env faces acc = Inr r"
    then obtain ia' out' where "load_indices env faces (ia, out) = Inr (ia', out')"
      using acc by auto
    from load_indices_Inr [OF this] show "\<forall>face \<in> set faces. 3 \<le> length (mIndices face)" by simp
  next
    assume "\<forall>face \<in> set faces. 3 \<le> length (mIndices face)"
    then show "\<exists>r. load_indices env faces acc = Inr r" by (rule load_indices_total)
  qed
  have b: "(\<exists>face \<in> set faces. length (mIndices face) < 3) \<longleftrightarrow> load_indices env faces acc = Inl Out_of_bounds"
  proof
    assume s: "\<exists>face \<in> set faces. length (mIndices face) < 3"
    show "load_indices env faces acc = Inl Out_of_bounds"
    proof (cases "load_indices env faces acc")
      case (Inl flt)
      with load_indices_Inl [OF Inl] show ?thesis by simp
    next
      case (Inr r)
      with a s show ?thesis by (metis not_less)
    qed
  next
    assume "load_indices env faces acc = Inl Out_of_bounds"
    from load_indices_Inl [OF this] show "\<exists>face \<in> set faces. length (mIndices face) < 3" by simp
  qed
  have c: "\<forall>face. length (mIndices face) < 3 \<longrightarrow>
         nth_checked (mIndices face) 2 = Inl Out_of_bounds
       \<and> (length (mIndices face) < 2 \<longrightarrow> nth_checked (mIndices face) 1 = Inl Out_of_bounds)
       \<and> (\<forall>rest. load_indices env (face # rest) acc = Inl Out_of_bounds)"
    by (auto simp add: acc nth_checked_short nth_checked_Inl split: sum.splits)
  from a b c show ?thesis by blast
qed

theorem C10_witness:
  "load_indices example_env [\<lparr>mIndices = [0, 1, 2]\<rparr>, \<lparr>mIndices = [7, 8]\<rparr>] ([], []) = Inl Out_of_bounds
   \<and> nth_checked [7, 8 :: nat] 2 = Inl Out_of_bounds
   \<and> (\<exists>r. load_indices example_env [\<lparr>mIndices = [0, 1, 2]\<rparr>, \<lparr>mIndices = [4, 5, 6, 7]\<rparr>] ([], []) = Inr r)"
proof -
  note bad = C10_index_loading_needs_three_indices
      [where env = example_env and faces = "[\<lparr>mIndices = [0, 1, 2]\<rparr>, \<lparr>mIndices = [7, 8]\<rparr>]"
         and acc = "([], [])"]
  note good = C10_index_loading_needs_three_indices
      [where env = example_env and faces = "[\<lparr>mIndices = [0, 1, 2]\<rparr>, \<lparr>mIndices = [4, 5, 6, 7]\<rparr>]"
         and acc = "([], [])"]
  from bad have 1: "load_indices example_env [\<lparr>mIndices = [0, 1, 2]\<rparr>, \<lparr>mIndices = [7, 8]\<rparr>] ([], [])
      = Inl Out_of_bounds"
    by simp
  from bad [THEN conjunct2, THEN conjunct2, rule_format, of "\<lparr>mIndices = [7, 8]\<rparr>"]
  have 2: "nth_checked [7, 8 :: nat] 2 = Inl Out_of_bounds" by simp
  from good have 3: "\<exists>r. load_indices example_env
      [\<lparr>mIndices = [0, 1, 2]\<rparr>, \<lparr>mIndices = [4, 5, 6, 7]\<rparr>] ([], []) = Inr r"
    by simp
  from 1 2 3 show ?thesis by blast
qed

text \<open>
  C10 as first stated has the reads of slots 1 and 2 both out of bounds for every face
  with fewer than three indices. A line, a face with two indices, has fewer than three,
  and its slot 1 is in bounds: the read returns the second index. Only slot 2 is out of
  bounds there.
\<close>

theorem C10_counterexample:
  "length (mIndices \<lparr>mIndices = [7, 8]\<rparr>) < 3
   \<and> nth_checked (mIndices \<lparr>mIndices = [7, 8]\<rparr>) 1 = Inr 8
   \<and> nth_checked (mIndices \<lparr>mIndices = [7, 8]\<rparr>) 1 \<noteq> Inl Out_of_bounds
   \<and> nth_checked (mIndices \<lparr>mIndices = [7, 8]\<rparr>) 2 = Inl Out_of_bounds"
  by (simp add: nth_checked_def)

end
